theory Spec2Isabelle
  imports Complex_Main "HOL-Library.Sublist"
begin

section \<open>Values of the program\<close>

text \<open>
  A JavaScript string is a sequence of UTF-16 code units; a code unit is modelled by its
  number. \<open>js\<close> turns an ASCII literal into such a sequence, so that the string
  \<^verbatim>\<open>"1.2.3"\<close> of the source is written \<open>js ''1.2.3''\<close>.
\<close>

type_synonym jsstring = "nat list"

definition js :: "string \<Rightarrow> jsstring" where
  "js s = map of_char s"

text \<open>
  A JavaScript number is an IEEE 754 double: NaN, the two infinities, or a finite value,
  which is a rational number. The two zeros are one value \<open>Fin 0\<close> here: the program
  never divides by a zero (the only division is guarded by \<^verbatim>\<open>totalUnits > 0\<close>) and every
  other operation it uses (comparison, truthiness, \<^verbatim>\<open>toFixed\<close>, addition, multiplication of
  finite values) gives the same result on both zeros up to the sign of a zero.
\<close>

datatype jsnum = NaN | PInf | NInf | Fin rat

text \<open>The type \<^verbatim>\<open>number | string\<close> of the fields \<^verbatim>\<open>units\<close> and \<^verbatim>\<open>price\<close>.\<close>

datatype val = Num jsnum | Str jsstring

text \<open>
  \<^verbatim>\<open>type Purchase = { id: string; units: number | string; price: number | string }\<close>.
  The field \<^verbatim>\<open>id\<close> is called \<open>purchase_id\<close>, since \<open>id\<close> is the identity function of HOL.
\<close>

record Purchase =
  purchase_id :: jsstring
  units :: val
  price :: val

text \<open>
  \<^verbatim>\<open>Partial<Purchase>\<close>: every field of a purchase may be present or absent, \<^verbatim>\<open>id\<close>
  included.
\<close>

record PartialPurchase =
  id_field :: "jsstring option"
  units_field :: "val option"
  price_field :: "val option"

text \<open>The object spread \<^verbatim>\<open>{ ...p, ...fields }\<close>: a field of \<open>fs\<close> that is present wins.\<close>

definition spread :: "Purchase \<Rightarrow> PartialPurchase \<Rightarrow> Purchase" where
  "spread p fs =
     \<lparr> purchase_id = (case id_field fs of None \<Rightarrow> purchase_id p | Some i \<Rightarrow> i),
       units = (case units_field fs of None \<Rightarrow> units p | Some u \<Rightarrow> u),
       price = (case price_field fs of None \<Rightarrow> price p | Some c \<Rightarrow> c) \<rparr>"

section \<open>The purchase store\<close>

text \<open>
  The data of \<^verbatim>\<open>DcaState\<close>; its four functions are the definitions below, each taking
  the state and returning the new one, as the callback given to \<^verbatim>\<open>set\<close> does.
\<close>

record DcaState =
  purchases :: "Purchase list"

text \<open>
  \<^verbatim>\<open>String(n)\<close> for an integer-valued number \<open>n\<close> below \<open>10^21\<close> in magnitude, as
  \<^verbatim>\<open>Date.now()\<close> returns: the decimal digits, after a minus sign when negative.
\<close>

fun nat_digits :: "nat \<Rightarrow> jsstring" where
  "nat_digits n = (if n < 10 then [48 + n] else nat_digits (n div 10) @ [48 + n mod 10])"

declare nat_digits.simps [simp del]

definition String_int :: "int \<Rightarrow> jsstring" where
  "String_int i = (if i < 0 then 45 # nat_digits (nat (- i)) else nat_digits (nat i))"

text \<open>
  The store is created with one empty row whose id is \<^verbatim>\<open>String(Date.now())\<close>; \<open>now\<close> is
  the value \<^verbatim>\<open>Date.now()\<close> returned.
\<close>

definition initial_state :: "int \<Rightarrow> DcaState" where
  "initial_state now =
     \<lparr> purchases = [\<lparr> purchase_id = String_int now, units = Str [], price = Str [] \<rparr>] \<rparr>"

text \<open>
  \<^verbatim>\<open>addPurchase\<close>. The id is \<^verbatim>\<open>String(Date.now()) + Math.random().toString(36).slice(2)\<close>:
  \<open>now\<close> is the value of \<^verbatim>\<open>Date.now()\<close> and \<open>rnd\<close> the string
  \<^verbatim>\<open>Math.random().toString(36).slice(2)\<close>, both read from the environment.
\<close>

definition addPurchase :: "int \<Rightarrow> jsstring \<Rightarrow> DcaState \<Rightarrow> DcaState" where
  "addPurchase now rnd s =
     s \<lparr> purchases := purchases s @
           [\<lparr> purchase_id = String_int now @ rnd, units = Str [], price = Str [] \<rparr>] \<rparr>"

definition updatePurchase :: "jsstring \<Rightarrow> PartialPurchase \<Rightarrow> DcaState \<Rightarrow> DcaState" where
  "updatePurchase i fs s =
     s \<lparr> purchases := map (\<lambda>p. if purchase_id p = i then spread p fs else p) (purchases s) \<rparr>"

definition removePurchase :: "jsstring \<Rightarrow> DcaState \<Rightarrow> DcaState" where
  "removePurchase i s = s \<lparr> purchases := filter (\<lambda>p. purchase_id p \<noteq> i) (purchases s) \<rparr>"

definition resetPurchases :: "DcaState \<Rightarrow> DcaState" where
  "resetPurchases s = s \<lparr> purchases := [] \<rparr>"

text \<open>A call of one of the store's functions, and a sequence of calls run from left to right.\<close>

datatype store_op =
    Add int jsstring
  | Update jsstring PartialPurchase
  | Remove jsstring
  | Reset

fun apply_op :: "store_op \<Rightarrow> DcaState \<Rightarrow> DcaState" where
  "apply_op (Add now rnd) s = addPurchase now rnd s"
| "apply_op (Update i fs) s = updatePurchase i fs s"
| "apply_op (Remove i) s = removePurchase i s"
| "apply_op Reset s = resetPurchases s"

fun run_ops :: "store_op list \<Rightarrow> DcaState \<Rightarrow> DcaState" where
  "run_ops [] s = s"
| "run_ops (c # cs) s = run_ops cs (apply_op c s)"

definition ids :: "DcaState \<Rightarrow> jsstring list" where
  "ids s = map purchase_id (purchases s)"

text \<open>
  The calls that keep ids apart: an \<^verbatim>\<open>addPurchase\<close> whose generated id is not in the list,
  an \<^verbatim>\<open>updatePurchase\<close> whose fields carry no \<^verbatim>\<open>id\<close>; any removal or reset.
\<close>

fun id_safe :: "store_op \<Rightarrow> DcaState \<Rightarrow> bool" where
  "id_safe (Add now rnd) s = (String_int now @ rnd \<notin> set (ids s))"
| "id_safe (Update i fs) s = (id_field fs = None)"
| "id_safe (Remove i) s = True"
| "id_safe Reset s = True"

fun id_safe_ops :: "store_op list \<Rightarrow> DcaState \<Rightarrow> bool" where
  "id_safe_ops [] s = True"
| "id_safe_ops (c # cs) s = (id_safe c s \<and> id_safe_ops cs (apply_op c s))"

text \<open>A store with two rows and a set of fields without \<^verbatim>\<open>id\<close>, for the examples below.\<close>

definition example_store :: DcaState where
  "example_store = \<lparr> purchases =
     [\<lparr> purchase_id = js ''1700000000000'', units = Str (js ''10''), price = Str (js ''50'') \<rparr>,
      \<lparr> purchase_id = js ''1700000000001k3f'', units = Str (js ''5''), price = Str [] \<rparr>] \<rparr>"

definition example_fields :: PartialPurchase where
  "example_fields = \<lparr> id_field = None, units_field = Some (Str (js ''7'')), price_field = None \<rparr>"

section \<open>The input sanitizer\<close>

text \<open>
  \<^verbatim>\<open>String.prototype.trim\<close> removes leading and trailing white space and line terminators:
  TAB, VT, FF, SP, NBSP, ZWNBSP and the other space separators of Unicode; LF, CR, LS, PS.
\<close>

definition is_white_space :: "nat \<Rightarrow> bool" where
  "is_white_space c \<longleftrightarrow>
     c = 9 \<or> c = 10 \<or> c = 11 \<or> c = 12 \<or> c = 13 \<or> c = 32 \<or> c = 160 \<or> c = 5760
     \<or> (8192 \<le> c \<and> c \<le> 8202) \<or> c = 8232 \<or> c = 8233 \<or> c = 8239 \<or> c = 8287
     \<or> c = 12288 \<or> c = 65279"

definition trim :: "jsstring \<Rightarrow> jsstring" where
  "trim s = rev (dropWhile is_white_space (rev (dropWhile is_white_space s)))"

text \<open>\<^verbatim>\<open>\d\<close> in a regular expression without the \<^verbatim>\<open>u\<close> flag: the ten ASCII digits.\<close>

definition is_digit :: "nat \<Rightarrow> bool" where
  "is_digit c \<longleftrightarrow> 48 \<le> c \<and> c \<le> 57"

text \<open>The code unit of \<^verbatim>\<open>"."\<close>.\<close>

definition dot :: nat where
  "dot = 46"

text \<open>\<^verbatim>\<open>v.replace(/[^\d.]/g, "")\<close>: every code unit that is neither a digit nor a dot is removed.\<close>

definition replace_non_numeric :: "jsstring \<Rightarrow> jsstring" where
  "replace_non_numeric v = filter (\<lambda>c. is_digit c \<or> c = dot) v"

text \<open>\<^verbatim>\<open>s.indexOf(c)\<close> for a single code unit: the first position of \<open>c\<close>, or \<open>-1\<close>.\<close>

fun indexOf :: "jsstring \<Rightarrow> nat \<Rightarrow> int" where
  "indexOf [] c = - 1"
| "indexOf (x # xs) c = (if x = c then 0 else (let i = indexOf xs c in if i = - 1 then - 1 else i + 1))"

text \<open>
  \<^verbatim>\<open>s.split(c)\<close> for a single code unit: the pieces between the occurrences of \<open>c\<close>;
  the result is never empty (\<^verbatim>\<open>"".split(".")\<close> is \<^verbatim>\<open>[""]\<close>).
\<close>

fun split :: "jsstring \<Rightarrow> nat \<Rightarrow> jsstring list" where
  "split [] c = [[]]"
| "split (x # xs) c =
     (if x = c then [] # split xs c
      else (case split xs c of [] \<Rightarrow> [[x]] | p # ps \<Rightarrow> (x # p) # ps))"

text \<open>\<^verbatim>\<open>rest.join("")\<close>.\<close>

definition join_empty :: "jsstring list \<Rightarrow> jsstring" where
  "join_empty ps = concat ps"

text \<open>\<^verbatim>\<open>s.startsWith(c)\<close> for a single code unit.\<close>

definition startsWith :: "jsstring \<Rightarrow> nat \<Rightarrow> bool" where
  "startsWith s c = (case s of [] \<Rightarrow> False | x # _ \<Rightarrow> x = c)"

text \<open>
  \<^verbatim>\<open>sanitizeNumericInput\<close>. The pattern \<^verbatim>\<open>[intPart, ...rest]\<close> takes the first piece and the
  list of the others; \<open>split\<close> returns at least one piece.
\<close>

definition sanitizeNumericInput :: "jsstring \<Rightarrow> jsstring" where
  "sanitizeNumericInput v =
     (let s = replace_non_numeric v;
          s = (if indexOf s dot \<noteq> - 1
               then (case split s dot of
                       intPart # rest \<Rightarrow> intPart @ [dot] @ join_empty rest
                     | [] \<Rightarrow> s)
               else s);
          s = (if startsWith s dot then 48 # s else s)
      in s)"

text \<open>\<^verbatim>\<open>const clean = value.trim() === "" ? "" : sanitizeNumericInput(value)\<close>.\<close>

definition clean :: "jsstring \<Rightarrow> jsstring" where
  "clean v = (if trim v = [] then [] else sanitizeNumericInput v)"

subsection \<open>The sanitizer as the specification words it\<close>

text \<open>Step 1: strip every character that is not a digit or a dot.\<close>

definition spec_strip :: "jsstring \<Rightarrow> jsstring" where
  "spec_strip v = [c \<leftarrow> v. c \<in> {48, 49, 50, 51, 52, 53, 54, 55, 56, 57} \<or> c = 46]"

text \<open>Step 2: keep the first dot and remove all subsequent dots.\<close>

fun spec_keep_first_dot :: "jsstring \<Rightarrow> jsstring" where
  "spec_keep_first_dot [] = []"
| "spec_keep_first_dot (c # cs) =
     (if c = 46 then c # [x \<leftarrow> cs. x \<noteq> 46] else c # spec_keep_first_dot cs)"

text \<open>Step 3: if the result starts with a dot, prepend a \<^verbatim>\<open>"0"\<close>.\<close>

fun spec_prepend_zero :: "jsstring \<Rightarrow> jsstring" where
  "spec_prepend_zero [] = []"
| "spec_prepend_zero (c # cs) = (if c = 46 then 48 # c # cs else c # cs)"

text \<open>
  The three steps, applied when the raw text is not empty after trimming; otherwise the
  empty string.
\<close>

definition spec_sanitizer :: "jsstring \<Rightarrow> jsstring" where
  "spec_sanitizer v =
     (if trim v = [] then [] else spec_prepend_zero (spec_keep_first_dot (spec_strip v)))"

text \<open>
  The shape of a cleaned value: only digits and dots, at most one dot, and no dot in front.
\<close>

fun digits_dot :: "jsstring \<Rightarrow> bool" where
  "digits_dot [] = True"
| "digits_dot (c # cs) = (if c = dot then list_all is_digit cs else is_digit c \<and> digits_dot cs)"

definition cleaned :: "jsstring \<Rightarrow> bool" where
  "cleaned s \<longleftrightarrow> digits_dot s \<and> \<not> startsWith s dot"

section \<open>Numbers\<close>

text \<open>
  Rounding a rational to a double, to nearest with ties to even: the value is written
  \<open>m * 2^e\<close> with the exponent \<open>e\<close> of the last bit of a 53 bit mantissa, at least
  \<open>-1074\<close> (the subnormal range), and \<open>m\<close> is rounded to an integer. A result of
  magnitude \<open>2^1024\<close> or more is an infinity.
\<close>

fun bit_length :: "nat \<Rightarrow> nat" where
  "bit_length n = (if n = 0 then 0 else bit_length (n div 2) + 1)"

declare bit_length.simps [simp del]

text \<open>For \<open>x > 0\<close>, the integer \<open>e\<close> with \<open>2^e \<le> x < 2^(e+1)\<close>.\<close>

definition binary_exponent :: "rat \<Rightarrow> int" where
  "binary_exponent x =
     (if 1 \<le> x then int (bit_length (nat \<lfloor>x\<rfloor>)) - 1
      else - int (bit_length (nat (\<lceil>1 / x\<rceil> - 1))))"

definition pow2 :: "int \<Rightarrow> rat" where
  "pow2 e = (if 0 \<le> e then 2 ^ nat e else 1 / 2 ^ nat (- e))"

definition pow10 :: "int \<Rightarrow> rat" where
  "pow10 e = (if 0 \<le> e then 10 ^ nat e else 1 / 10 ^ nat (- e))"

definition round_half_even :: "rat \<Rightarrow> int" where
  "round_half_even x =
     (let f = \<lfloor>x\<rfloor>; d = x - of_int f
      in if d < 1 / 2 then f else if 1 / 2 < d then f + 1 else if even f then f else f + 1)"

definition to_double :: "rat \<Rightarrow> jsnum" where
  "to_double x =
     (if x = 0 then Fin 0
      else let a = \<bar>x\<bar>;
               e = max (binary_exponent a - 52) (- 1074);
               y = of_int (round_half_even (a / pow2 e)) * pow2 e
           in if 2 ^ 1024 \<le> y then (if x < 0 then NInf else PInf)
              else Fin (if x < 0 then - y else y))"

text \<open>The operators \<^verbatim>\<open>+\<close>, \<^verbatim>\<open>*\<close> and \<^verbatim>\<open>/\<close> on numbers, and the comparisons \<^verbatim>\<open>>\<close> and \<^verbatim>\<open>>=\<close>.\<close>

fun js_add :: "jsnum \<Rightarrow> jsnum \<Rightarrow> jsnum" where
  "js_add NaN _ = NaN"
| "js_add _ NaN = NaN"
| "js_add PInf NInf = NaN"
| "js_add NInf PInf = NaN"
| "js_add PInf _ = PInf"
| "js_add _ PInf = PInf"
| "js_add NInf _ = NInf"
| "js_add _ NInf = NInf"
| "js_add (Fin a) (Fin b) = to_double (a + b)"

definition js_sign :: "jsnum \<Rightarrow> int" where
  "js_sign x =
     (case x of NaN \<Rightarrow> 0 | PInf \<Rightarrow> 1 | NInf \<Rightarrow> - 1
      | Fin a \<Rightarrow> if a < 0 then - 1 else if a = 0 then 0 else 1)"

definition signed_infinity :: "int \<Rightarrow> jsnum" where
  "signed_infinity s = (if s = 0 then NaN else if 0 < s then PInf else NInf)"

fun js_mul :: "jsnum \<Rightarrow> jsnum \<Rightarrow> jsnum" where
  "js_mul NaN _ = NaN"
| "js_mul _ NaN = NaN"
| "js_mul (Fin a) (Fin b) = to_double (a * b)"
| "js_mul x y = signed_infinity (js_sign x * js_sign y)"

text \<open>
  Division. The quotient of a finite number by an infinity is a zero; a zero divisor is
  taken as \<open>+0\<close> (the program divides only by a number that is greater than zero).
\<close>

fun js_div :: "jsnum \<Rightarrow> jsnum \<Rightarrow> jsnum" where
  "js_div NaN _ = NaN"
| "js_div _ NaN = NaN"
| "js_div (Fin a) (Fin b) = (if b = 0 then signed_infinity (js_sign (Fin a)) else to_double (a / b))"
| "js_div (Fin a) _ = Fin 0"
| "js_div x (Fin b) = signed_infinity (js_sign x * (if b < 0 then - 1 else 1))"
| "js_div _ _ = NaN"

fun js_gt :: "jsnum \<Rightarrow> jsnum \<Rightarrow> bool" where
  "js_gt NaN _ = False"
| "js_gt _ NaN = False"
| "js_gt PInf y = (y \<noteq> PInf)"
| "js_gt NInf _ = False"
| "js_gt (Fin a) PInf = False"
| "js_gt (Fin a) NInf = True"
| "js_gt (Fin a) (Fin b) = (b < a)"

definition js_ge :: "jsnum \<Rightarrow> jsnum \<Rightarrow> bool" where
  "js_ge x y \<longleftrightarrow> x \<noteq> NaN \<and> y \<noteq> NaN \<and> (js_gt x y \<or> x = y)"

text \<open>\<^verbatim>\<open>Number.isNaN\<close>, \<^verbatim>\<open>Number.isFinite\<close> and the truthiness of a number.\<close>

definition isNaN :: "jsnum \<Rightarrow> bool" where
  "isNaN x \<longleftrightarrow> x = NaN"

definition isFinite :: "jsnum \<Rightarrow> bool" where
  "isFinite x = (case x of Fin _ \<Rightarrow> True | _ \<Rightarrow> False)"

definition truthy :: "jsnum \<Rightarrow> bool" where
  "truthy x \<longleftrightarrow> x \<noteq> NaN \<and> x \<noteq> Fin 0"

subsection \<open>Conversion of a string to a number\<close>

text \<open>
  \<^verbatim>\<open>Number(s)\<close> for a string: white space around the text is dropped; the empty text is
  0; a binary, octal or hexadecimal integer literal, or a decimal literal with an optional
  sign, fraction and exponent, or a signed \<^verbatim>\<open>Infinity\<close>, has its value, rounded to a
  double; any other text is NaN.
\<close>

definition digits_value :: "jsstring \<Rightarrow> nat" where
  "digits_value ds = foldl (\<lambda>a c. 10 * a + (c - 48)) 0 ds"

text \<open>The value of a hexadecimal digit, if the code unit is one.\<close>

definition hex_digit :: "nat \<Rightarrow> nat option" where
  "hex_digit c =
     (if 48 \<le> c \<and> c \<le> 57 then Some (c - 48)
      else if 97 \<le> c \<and> c \<le> 102 then Some (c - 87)
      else if 65 \<le> c \<and> c \<le> 70 then Some (c - 55)
      else None)"

text \<open>A non-empty sequence of digits of the radix, read as a number.\<close>

fun radix_value :: "nat \<Rightarrow> nat \<Rightarrow> jsstring \<Rightarrow> nat option" where
  "radix_value r a [] = Some a"
| "radix_value r a (c # cs) =
     (case hex_digit c of
        None \<Rightarrow> None
      | Some d \<Rightarrow> if d < r then radix_value r (r * a + d) cs else None)"

text \<open>\<^verbatim>\<open>0b\<close>, \<^verbatim>\<open>0o\<close> and \<^verbatim>\<open>0x\<close> literals, with the letter in either case.\<close>

definition non_decimal_literal :: "jsstring \<Rightarrow> nat option" where
  "non_decimal_literal t =
     (case t of
        z # p # ds \<Rightarrow>
          if z = 48 \<and> ds \<noteq> [] then
            (if p = 98 \<or> p = 66 then radix_value 2 0 ds
             else if p = 111 \<or> p = 79 then radix_value 8 0 ds
             else if p = 120 \<or> p = 88 then radix_value 16 0 ds
             else None)
          else None
      | _ \<Rightarrow> None)"

text \<open>An optional sign: whether it is a minus, and the rest of the text.\<close>

definition take_sign :: "jsstring \<Rightarrow> bool \<times> jsstring" where
  "take_sign t =
     (case t of
        [] \<Rightarrow> (False, [])
      | c # cs \<Rightarrow> if c = 45 then (True, cs) else if c = 43 then (False, cs) else (False, t))"

text \<open>
  The exponent part: nothing, or \<^verbatim>\<open>e\<close> or \<^verbatim>\<open>E\<close>, an optional sign and at least one digit.
\<close>

definition exponent_part :: "jsstring \<Rightarrow> int option" where
  "exponent_part t =
     (case t of
        [] \<Rightarrow> Some 0
      | c # cs \<Rightarrow>
          if c = 101 \<or> c = 69 then
            (case take_sign cs of
               (neg, ds) \<Rightarrow>
                 if ds \<noteq> [] \<and> list_all is_digit ds
                 then Some (if neg then - int (digits_value ds) else int (digits_value ds))
                 else None)
          else None)"

text \<open>
  An unsigned decimal literal: digits, an optional dot with optional digits, or a dot with
  digits; then the exponent part. At least one digit is needed before the exponent.
\<close>

definition unsigned_decimal :: "jsstring \<Rightarrow> rat option" where
  "unsigned_decimal t =
     (let ip = takeWhile is_digit t;
          r = dropWhile is_digit t;
          fp = (case r of [] \<Rightarrow> [] | c # cs \<Rightarrow> if c = dot then takeWhile is_digit cs else []);
          r = (case r of [] \<Rightarrow> [] | c # cs \<Rightarrow> if c = dot then dropWhile is_digit cs else r)
      in if ip = [] \<and> fp = [] then None
         else (case exponent_part r of
                 None \<Rightarrow> None
               | Some e \<Rightarrow>
                   Some (of_nat (digits_value (ip @ fp)) * pow10 (e - int (length fp)))))"

definition Number_string :: "jsstring \<Rightarrow> jsnum" where
  "Number_string s =
     (let t = trim s
      in if t = [] then Fin 0
         else (case non_decimal_literal t of
                 Some n \<Rightarrow> to_double (of_nat n)
               | None \<Rightarrow>
                   (case take_sign t of
                      (neg, u) \<Rightarrow>
                        if u = js ''Infinity'' then (if neg then NInf else PInf)
                        else (case unsigned_decimal u of
                                None \<Rightarrow> NaN
                              | Some q \<Rightarrow> to_double (if neg then - q else q)))))"

section \<open>The row schema\<close>

text \<open>The two fields of a row that the schema and the editor know.\<close>

datatype field = Units | Price

text \<open>
  \<^verbatim>\<open>z.union([z.string(), z.number()])\<close>: a string is accepted; a number is accepted by
  \<^verbatim>\<open>z.number()\<close> unless it is NaN. Whether \<^verbatim>\<open>z.number()\<close> accepts the infinities depends on
  the version of the zod library (version 3 does, version 4 does not), which the sources do
  not fix: \<open>admits_infinity\<close> says which it is.
\<close>

definition union_accepts :: "bool \<Rightarrow> val \<Rightarrow> bool" where
  "union_accepts admits_infinity v =
     (case v of Str _ \<Rightarrow> True | Num n \<Rightarrow> \<not> isNaN n \<and> (admits_infinity \<or> isFinite n))"

text \<open>\<^verbatim>\<open>.transform((v) => typeof v === "string" && v.trim() === "" ? 0 : Number(v))\<close>\<close>

definition transform :: "val \<Rightarrow> jsnum" where
  "transform v = (case v of Str s \<Rightarrow> if trim s = [] then Fin 0 else Number_string s | Num n \<Rightarrow> n)"

text \<open>\<^verbatim>\<open>.refine((n) => !Number.isNaN(n) && n >= 0, ...)\<close>\<close>

definition refine :: "jsnum \<Rightarrow> bool" where
  "refine n \<longleftrightarrow> \<not> isNaN n \<and> js_ge n (Fin 0)"

definition refine_message :: "field \<Rightarrow> jsstring" where
  "refine_message f =
     (case f of Units \<Rightarrow> js ''Units must be a non-negative number''
              | Price \<Rightarrow> js ''Price must be a non-negative number'')"

text \<open>
  An issue of a failed parse: the field it is about (the first element of its path) and
  its message. The message of a value that the union rejects is zod's own.
\<close>

record issue =
  path :: field
  message :: jsstring

definition field_issues :: "bool \<Rightarrow> field \<Rightarrow> val \<Rightarrow> issue list" where
  "field_issues admits_infinity f v =
     (if \<not> union_accepts admits_infinity v then [\<lparr> path = f, message = js ''Invalid input'' \<rparr>]
      else if refine (transform v) then []
      else [\<lparr> path = f, message = refine_message f \<rparr>])"

text \<open>
  \<^verbatim>\<open>RowSchema.safeParse({ units, price })\<close>: the parse succeeds, with the two transformed
  numbers, when neither field has an issue; otherwise it fails with the issues of
  \<^verbatim>\<open>units\<close> followed by those of \<^verbatim>\<open>price\<close>.
\<close>

datatype parse_result = Success jsnum jsnum | Failure "issue list"

definition RowSchema_safeParse :: "bool \<Rightarrow> val \<Rightarrow> val \<Rightarrow> parse_result" where
  "RowSchema_safeParse admits_infinity u p =
     (let issues = field_issues admits_infinity Units u @ field_issues admits_infinity Price p
      in if issues = [] then Success (transform u) (transform p) else Failure issues)"

text \<open>What the specification asks of a valid value: a finite number, at least zero.\<close>

definition finite_non_negative :: "jsnum \<Rightarrow> bool" where
  "finite_non_negative n = (case n of Fin q \<Rightarrow> 0 \<le> q | _ \<Rightarrow> False)"

text \<open>What the schema asks: a number, at least zero; \<open>+Infinity\<close> is one.\<close>

definition non_negative :: "jsnum \<Rightarrow> bool" where
  "non_negative n = (case n of Fin q \<Rightarrow> 0 \<le> q | PInf \<Rightarrow> True | _ \<Rightarrow> False)"

section \<open>The row editor\<close>

text \<open>The state \<^verbatim>\<open>errors\<close> of a row: an optional message for each field.\<close>

record Errors =
  units_error :: "jsstring option"
  price_error :: "jsstring option"

definition no_errors :: Errors where
  "no_errors = \<lparr> units_error = None, price_error = None \<rparr>"

text \<open>\<^verbatim>\<open>setErrors((e) => ({ ...e, [field]: m }))\<close>\<close>

definition set_error :: "field \<Rightarrow> jsstring option \<Rightarrow> Errors \<Rightarrow> Errors" where
  "set_error f m e = (case f of Units \<Rightarrow> e \<lparr> units_error := m \<rparr> | Price \<Rightarrow> e \<lparr> price_error := m \<rparr>)"

definition error_of :: "field \<Rightarrow> Errors \<Rightarrow> jsstring option" where
  "error_of f e = (case f of Units \<Rightarrow> units_error e | Price \<Rightarrow> price_error e)"

text \<open>The object \<^verbatim>\<open>{ [field]: v }\<close>.\<close>

definition only_field :: "field \<Rightarrow> val \<Rightarrow> PartialPurchase" where
  "only_field f v =
     (case f of
        Units \<Rightarrow> \<lparr> id_field = None, units_field = Some v, price_field = None \<rparr>
      | Price \<Rightarrow> \<lparr> id_field = None, units_field = None, price_field = Some v \<rparr>)"

text \<open>
  \<^verbatim>\<open>handleChange(field, value)\<close> of the row \<open>row\<close>, whose \<^verbatim>\<open>onChange\<close> is
  \<^verbatim>\<open>updatePurchase\<close>: it takes the row's error state and the store and returns both.
  \<^verbatim>\<open>safeParse\<close> does not throw, so the \<^verbatim>\<open>catch\<close> branch is not modelled.
\<close>

definition handleChange ::
  "bool \<Rightarrow> Purchase \<Rightarrow> field \<Rightarrow> jsstring \<Rightarrow> Errors \<times> DcaState \<Rightarrow> Errors \<times> DcaState" where
  "handleChange admits_infinity row f v es =
     (case es of (errors, st) \<Rightarrow>
        let cleaned_value = clean v;
            parsed = RowSchema_safeParse admits_infinity
                       (case f of Units \<Rightarrow> Str cleaned_value | Price \<Rightarrow> units row)
                       (case f of Units \<Rightarrow> price row | Price \<Rightarrow> Str cleaned_value);
            errors =
              (case parsed of
                 Failure issues \<Rightarrow>
                   (case find (\<lambda>i. path i = f) issues of
                      Some i \<Rightarrow> set_error f (Some (message i)) errors
                    | None \<Rightarrow> set_error f None errors)
               | Success _ _ \<Rightarrow> set_error f None errors);
            st = (if cleaned_value = []
                  then updatePurchase (purchase_id row) (only_field f (Str [])) st
                  else updatePurchase (purchase_id row) (only_field f (Str cleaned_value)) st)
        in (errors, st))"

text \<open>
  Whether \<^verbatim>\<open>handleChange\<close> takes the branch \<^verbatim>\<open>if (!parsed.success)\<close>, in which an error
  message may be set.
\<close>

definition takes_error_branch :: "bool \<Rightarrow> Purchase \<Rightarrow> field \<Rightarrow> jsstring \<Rightarrow> bool" where
  "takes_error_branch admits_infinity row f v =
     (case RowSchema_safeParse admits_infinity
             (case f of Units \<Rightarrow> Str (clean v) | Price \<Rightarrow> units row)
             (case f of Units \<Rightarrow> price row | Price \<Rightarrow> Str (clean v)) of
        Failure _ \<Rightarrow> True
      | Success _ _ \<Rightarrow> False)"

subsection \<open>The page\<close>

text \<open>
  The page holds the store and, for each row (React keeps the state of a \<^verbatim>\<open>Row\<close> by its
  key, the id), the row's error state, empty when the row is mounted. The user adds a row,
  resets the list, removes the row at a position, or changes the text of a field of the
  row at a position.
\<close>

record Page =
  store :: DcaState
  row_errors :: "jsstring \<Rightarrow> Errors"

datatype event =
    ClickAdd int jsstring
  | ClickReset
  | ClickRemove nat
  | Change nat field jsstring

definition initial_page :: "int \<Rightarrow> Page" where
  "initial_page now = \<lparr> store = initial_state now, row_errors = (\<lambda>_. no_errors) \<rparr>"

fun react :: "bool \<Rightarrow> event \<Rightarrow> Page \<Rightarrow> Page" where
  "react z (ClickAdd now rnd) pg = pg \<lparr> store := addPurchase now rnd (store pg) \<rparr>"
| "react z ClickReset pg = \<lparr> store = resetPurchases (store pg), row_errors = (\<lambda>_. no_errors) \<rparr>"
| "react z (ClickRemove k) pg =
     (if k < length (purchases (store pg))
      then let i = purchase_id (purchases (store pg) ! k)
           in \<lparr> store = removePurchase i (store pg),
                row_errors = (row_errors pg) (i := no_errors) \<rparr>
      else pg)"
| "react z (Change k f v) pg =
     (if k < length (purchases (store pg))
      then let row = purchases (store pg) ! k
           in (case handleChange z row f v (row_errors pg (purchase_id row), store pg) of
                 (errors, st) \<Rightarrow>
                   \<lparr> store = st, row_errors = (row_errors pg) (purchase_id row := errors) \<rparr>)
      else pg)"

fun react_all :: "bool \<Rightarrow> event list \<Rightarrow> Page \<Rightarrow> Page" where
  "react_all z [] pg = pg"
| "react_all z (ev # evs) pg = react_all z evs (react z ev pg)"

text \<open>A field holding a string in the shape of a cleaned value.\<close>

definition cleaned_val :: "val \<Rightarrow> bool" where
  "cleaned_val v = (case v of Str s \<Rightarrow> cleaned s | Num _ \<Rightarrow> False)"

text \<open>
  The state of a page in which every stored field is a string in the shape of a cleaned
  value and no row has an error message.
\<close>

definition page_ok :: "Page \<Rightarrow> bool" where
  "page_ok pg \<longleftrightarrow>
     (\<forall>p \<in> set (purchases (store pg)). cleaned_val (units p) \<and> cleaned_val (price p))
     \<and> (\<forall>i. row_errors pg i = no_errors)"

text \<open>The value of a field of a purchase.\<close>

definition field_of :: "field \<Rightarrow> Purchase \<Rightarrow> val" where
  "field_of f p = (case f of Units \<Rightarrow> units p | Price \<Rightarrow> price p)"

text \<open>Two user events, for the examples below.\<close>

definition example_events :: "event list" where
  "example_events = [ClickAdd 1700000000001 (js ''k3f''), Change 1 Units (js ''1.2.3'')]"

section \<open>The aggregator\<close>

text \<open>\<^verbatim>\<open>typeof x === "number" ? x : Number(x || 0)\<close>: the empty string is falsy.\<close>

definition numeric :: "val \<Rightarrow> jsnum" where
  "numeric x = (case x of Num n \<Rightarrow> n | Str s \<Rightarrow> if s = [] then Fin 0 else Number_string s)"

text \<open>The elements of \<^verbatim>\<open>parsed\<close> and the result of \<^verbatim>\<open>totals\<close>.\<close>

record Parsed =
  parsed_units :: jsnum
  parsed_price :: jsnum
  parsed_amount :: jsnum

record Totals =
  totalUnits :: jsnum
  avgPrice :: jsnum
  totalAmount :: jsnum

definition parse_purchase :: "Purchase \<Rightarrow> Parsed" where
  "parse_purchase p =
     (let u = numeric (units p);
          c = numeric (price p);
          amount = js_mul (if isFinite u then u else Fin 0) (if isFinite c then c else Fin 0)
      in \<lparr> parsed_units = (if isFinite u then u else Fin 0),
           parsed_price = (if isFinite c then c else Fin 0),
           parsed_amount = amount \<rparr>)"

definition totals :: "Purchase list \<Rightarrow> Totals" where
  "totals ps =
     (let parsed = map parse_purchase ps;
          total_units = foldl (\<lambda>s p. js_add s (parsed_units p)) (Fin 0) parsed;
          total_amount = foldl (\<lambda>s p. js_add s (parsed_amount p)) (Fin 0) parsed;
          avg_price = (if js_gt total_units (Fin 0) then js_div total_amount total_units else Fin 0)
      in \<lparr> totalUnits = total_units, avgPrice = avg_price, totalAmount = total_amount \<rparr>)"

subsection \<open>The aggregates as the specification words them\<close>

text \<open>
  The numeric form of a field: the number itself, or \<^verbatim>\<open>Number\<close> of the text with the empty
  string treated as 0; a non-finite numeric value counts as 0.
\<close>

definition spec_numeric :: "val \<Rightarrow> jsnum" where
  "spec_numeric x =
     (case (case x of Num n \<Rightarrow> n | Str s \<Rightarrow> if s = [] then Fin 0 else Number_string s) of
        Fin q \<Rightarrow> Fin q
      | _ \<Rightarrow> Fin 0)"

text \<open>The sum of a sequence of numbers, added from the left to 0.\<close>

fun js_sum_from :: "jsnum \<Rightarrow> jsnum list \<Rightarrow> jsnum" where
  "js_sum_from a [] = a"
| "js_sum_from a (x # xs) = js_sum_from (js_add a x) xs"

definition spec_totalUnits :: "Purchase list \<Rightarrow> jsnum" where
  "spec_totalUnits ps = js_sum_from (Fin 0) (map (\<lambda>p. spec_numeric (units p)) ps)"

definition spec_amount :: "Purchase \<Rightarrow> jsnum" where
  "spec_amount p = js_mul (spec_numeric (units p)) (spec_numeric (price p))"

definition spec_totalAmount :: "Purchase list \<Rightarrow> jsnum" where
  "spec_totalAmount ps = js_sum_from (Fin 0) (map spec_amount ps)"

definition spec_avgPrice :: "Purchase list \<Rightarrow> jsnum" where
  "spec_avgPrice ps =
     (if js_gt (spec_totalUnits ps) (Fin 0) then js_div (spec_totalAmount ps) (spec_totalUnits ps)
      else Fin 0)"

section \<open>The summary panel\<close>

text \<open>
  \<^verbatim>\<open>String(x)\<close> for a finite number \<open>x\<close> of at least \<open>10^21\<close>: the shortest sequence
  of digits \<open>s\<close>, with a decimal exponent \<open>p\<close>, such that \<open>s * 10^p\<close> rounds to \<open>x\<close>,
  and among these the one closest to \<open>x\<close> (as the engines choose it); it is written with
  a dot after the first digit, when there are more, and the exponent of the first digit
  after \<^verbatim>\<open>e+\<close>. A double has such digits with at most 17 of them.
\<close>

definition digit_candidates :: "rat \<Rightarrow> nat \<Rightarrow> (nat \<times> int) list" where
  "digit_candidates x k =
     (let d = int (length (nat_digits (nat \<lfloor>x\<rfloor>)))
      in [(s, p). p \<leftarrow> [d - int k, d - int k + 1],
                  s \<leftarrow> [nat \<lfloor>x / pow10 p\<rfloor>, nat \<lfloor>x / pow10 p\<rfloor> + 1],
                  10 ^ (k - 1) \<le> s \<and> s < 10 ^ k \<and> to_double (of_nat s * pow10 p) = Fin x])"

definition closer :: "rat \<Rightarrow> nat \<times> int \<Rightarrow> nat \<times> int \<Rightarrow> nat \<times> int" where
  "closer x c b =
     (if \<bar>of_nat (fst c) * pow10 (snd c) - x\<bar> < \<bar>of_nat (fst b) * pow10 (snd b) - x\<bar>
      then c else b)"

fun shortest_digits :: "rat \<Rightarrow> nat \<Rightarrow> nat \<Rightarrow> nat \<times> int" where
  "shortest_digits x k 0 = (nat \<lfloor>x\<rfloor>, 0)"
| "shortest_digits x k (Suc fuel) =
     (case digit_candidates x k of
        [] \<Rightarrow> shortest_digits x (k + 1) fuel
      | c # cs \<Rightarrow> fold (closer x) cs c)"

definition String_large :: "rat \<Rightarrow> jsstring" where
  "String_large x =
     (case shortest_digits x 1 17 of
        (s, p) \<Rightarrow>
          let ds = nat_digits s;
              n = p + int (length ds)
          in (case ds of
                [] \<Rightarrow> []
              | c # cs \<Rightarrow>
                  (if cs = [] then [c] else c # 46 # cs) @ [101, 43] @ nat_digits (nat (n - 1))))"

text \<open>
  \<^verbatim>\<open>x.toFixed(f)\<close>. A number that is not finite gives its name. A finite number gives its
  sign and, when its magnitude is below \<open>10^21\<close>, the digits of the nearest multiple of
  \<open>10^-f\<close> (the larger one of two), with zeros in front up to \<open>f + 1\<close> digits and a dot
  before the last \<open>f\<close>; from \<open>10^21\<close> on, the text of \<^verbatim>\<open>String(x)\<close>.
\<close>

definition toFixed :: "nat \<Rightarrow> jsnum \<Rightarrow> jsstring" where
  "toFixed f x =
     (case x of
        NaN \<Rightarrow> js ''NaN''
      | PInf \<Rightarrow> js ''Infinity''
      | NInf \<Rightarrow> js ''-Infinity''
      | Fin q \<Rightarrow>
          let s = (if q < 0 then [45] else []);
              a = \<bar>q\<bar>
          in if 10 ^ 21 \<le> a then s @ String_large a
             else let n = nat \<lfloor>a * 10 ^ f + 1 / 2\<rfloor>;
                      m = nat_digits n;
                      m = (if f \<noteq> 0
                           then let m = (if length m \<le> f
                                         then replicate (f + 1 - length m) 48 @ m else m);
                                    k = length m
                                in take (k - f) m @ [46] @ drop (k - f) m
                           else m)
                  in s @ m)"

text \<open>
  \<^verbatim>\<open>${totals.avgPrice ? totals.avgPrice.toFixed(4) : "0.0000"}\<close> and
  \<^verbatim>\<open>${totals.totalAmount ? totals.totalAmount.toFixed(2) : "0.00"}\<close>: the text of the
  two cells, a dollar sign and the number.
\<close>

definition show_avgPrice :: "Totals \<Rightarrow> jsstring" where
  "show_avgPrice t =
     36 # (if truthy (avgPrice t) then toFixed 4 (avgPrice t) else js ''0.0000'')"

definition show_totalAmount :: "Totals \<Rightarrow> jsstring" where
  "show_totalAmount t =
     36 # (if truthy (totalAmount t) then toFixed 2 (totalAmount t) else js ''0.00'')"



text \<open>The list of the aggregation example.\<close>

definition example_purchases :: "Purchase list" where
  "example_purchases =
     [\<lparr> purchase_id = js ''1700000000000'', units = Num (Fin 10), price = Num (Fin 50) \<rparr>,
      \<lparr> purchase_id = js ''1700000000001k3f'', units = Num (Fin 5), price = Num (Fin 40) \<rparr>]"







section \<open>Properties of the store\<close>

lemma spread_no_id: "id_field fs = None \<Longrightarrow> purchase_id (spread p fs) = purchase_id p"
  by (simp add: spread_def)

lemma ids_update_no_id:
  "id_field fs = None \<Longrightarrow> ids (updatePurchase i fs s) = ids s"
  by (simp add: ids_def updatePurchase_def spread_no_id)

lemma distinct_ids_remove: "distinct (ids s) \<Longrightarrow> distinct (ids (removePurchase i s))"
  by (simp add: ids_def removePurchase_def distinct_map_filter)

lemma id_safe_distinct:
  "id_safe c s \<Longrightarrow> distinct (ids s) \<Longrightarrow> distinct (ids (apply_op c s))"
proof (cases c)
  case (Add now rnd)
  assume "id_safe c s" "distinct (ids s)"
  with Add show ?thesis by (simp add: ids_def addPurchase_def)
next
  case (Update i fs)
  assume "id_safe c s" "distinct (ids s)"
  with Update show ?thesis by (simp add: ids_update_no_id)
next
  case (Remove i)
  assume "distinct (ids s)"
  with Remove show ?thesis by (simp add: distinct_ids_remove)
next
  case Reset
  then show ?thesis by (simp add: ids_def resetPurchases_def)
qed

lemma id_safe_ops_take: "id_safe_ops cs s \<Longrightarrow> id_safe_ops (take n cs) s"
proof (induction cs arbitrary: s n)
  case Nil
  then show ?case by simp
next
  case (Cons c cs)
  then show ?case by (cases n) simp_all
qed

lemma id_safe_ops_distinct:
  "id_safe_ops cs s \<Longrightarrow> distinct (ids s) \<Longrightarrow> distinct (ids (run_ops cs s))"
proof (induction cs arbitrary: s)
  case Nil
  then show ?case by simp
next
  case (Cons c cs)
  then show ?case by (simp add: id_safe_distinct)
qed

lemma distinct_ids_initial: "distinct (ids (initial_state now))"
  by (simp add: ids_def initial_state_def)

lemma map_cong_id: "(\<And>x. x \<in> set xs \<Longrightarrow> f x = x) \<Longrightarrow> map f xs = xs"
  by (induction xs) auto

lemma update_absent:
  assumes "i \<notin> set (ids s)"
  shows "updatePurchase i fs s = s"
proof -
  have "map (\<lambda>p. if purchase_id p = i then spread p fs else p) (purchases s) = purchases s"
    by (rule map_cong_id) (use assms in \<open>auto simp: ids_def\<close>)
  then show ?thesis by (simp add: updatePurchase_def)
qed

lemma remove_absent:
  assumes "i \<notin> set (ids s)"
  shows "removePurchase i s = s"
proof -
  have "filter (\<lambda>p. purchase_id p \<noteq> i) (purchases s) = purchases s"
    using assms by (auto simp: ids_def filter_id_conv)
  then show ?thesis by (simp add: removePurchase_def)
qed

lemma update_length: "length (purchases (updatePurchase i fs s)) = length (purchases s)"
  by (simp add: updatePurchase_def)

lemma update_nth:
  "k < length (purchases s) \<Longrightarrow>
     purchases (updatePurchase i fs s) ! k =
       (if purchase_id (purchases s ! k) = i then spread (purchases s ! k) fs
        else purchases s ! k)"
  by (simp add: updatePurchase_def)

lemma remove_subseq: "subseq (purchases (removePurchase i s)) (purchases s)"
  by (simp add: removePurchase_def)

lemmas store_eval =
  String_int_def nat_digits.simps js_def ids_def initial_state_def addPurchase_def
  updatePurchase_def removePurchase_def resetPurchases_def spread_def

subsection \<open>Uniqueness of ids\<close>

text \<open>
  Claim C4, as stated: after every sequence of add, update and remove calls from the initial
  store, the ids of the list are pairwise distinct. It fails: the store is created at
  \<^verbatim>\<open>Date.now() = 1700000000000\<close>, a row is added one millisecond later with the random
  suffix \<^verbatim>\<open>"k3f"\<close>, and \<^verbatim>\<open>updatePurchase("1700000000001k3f", { id: "1700000000000" })\<close>
  then gives the second row the id of the first.
\<close>

theorem ids_distinct_counterexample:
  "\<not> distinct (ids (run_ops
       [Add 1700000000001 (js ''k3f''),
        Update (js ''1700000000001k3f'')
          \<lparr> id_field = Some (js ''1700000000000''), units_field = None, price_field = None \<rparr>]
       (initial_state 1700000000000)))"
  by (simp add: store_eval)

text \<open>
  Claim C4, amended: from the initial store, after every prefix of a sequence of calls in
  which each \<^verbatim>\<open>addPurchase\<close> generates an id that is not in the list and no
  \<^verbatim>\<open>updatePurchase\<close> is given an \<^verbatim>\<open>id\<close> field, the ids of the list are pairwise distinct.
\<close>

theorem ids_distinct_when_safe:
  "id_safe_ops cs (initial_state now) \<Longrightarrow>
     distinct (ids (run_ops (take n cs) (initial_state now)))"
  by (rule id_safe_ops_distinct [OF id_safe_ops_take distinct_ids_initial])

theorem ids_distinct_when_safe_witness:
  "id_safe_ops
     [Add 1700000000001 (js ''k3f''),
      Update (js ''1700000000001k3f'')
        \<lparr> id_field = None, units_field = Some (Str (js ''10'')), price_field = None \<rparr>,
      Remove (js ''1700000000000'')]
     (initial_state 1700000000000)
   \<and> distinct (ids (run_ops (take 2
     [Add 1700000000001 (js ''k3f''),
      Update (js ''1700000000001k3f'')
        \<lparr> id_field = None, units_field = Some (Str (js ''10'')), price_field = None \<rparr>,
      Remove (js ''1700000000000'')]) (initial_state 1700000000000)))"
proof -
  have h: "id_safe_ops
     [Add 1700000000001 (js ''k3f''),
      Update (js ''1700000000001k3f'')
        \<lparr> id_field = None, units_field = Some (Str (js ''10'')), price_field = None \<rparr>,
      Remove (js ''1700000000000'')]
     (initial_state 1700000000000)"
    by (simp add: store_eval)
  show ?thesis
    by (rule conjI [OF h ids_distinct_when_safe [OF h]])
qed

subsection \<open>Update and removal of an id that is not in the list\<close>

text \<open>
  Claim C7: when no entry of the list has the id, \<^verbatim>\<open>updatePurchase\<close> and
  \<^verbatim>\<open>removePurchase\<close> leave the store as it is. And neither reorders the entries, whatever
  the id: an update keeps the length and changes entries in place, position by position; a
  removal leaves a subsequence of the list, the entries that stay keeping their order.
\<close>

theorem absent_id_noop:
  "(i \<notin> set (ids s) \<longrightarrow> updatePurchase i fs s = s \<and> removePurchase i s = s)
   \<and> length (purchases (updatePurchase i fs s)) = length (purchases s)
   \<and> (\<forall>k < length (purchases s).
        purchases (updatePurchase i fs s) ! k =
          (if purchase_id (purchases s ! k) = i then spread (purchases s ! k) fs
           else purchases s ! k))
   \<and> subseq (purchases (removePurchase i s)) (purchases s)"
  by (simp add: update_absent remove_absent update_length update_nth remove_subseq)

theorem absent_id_noop_witness:
  "js ''1700000000002x'' \<notin> set (ids example_store)
   \<and> updatePurchase (js ''1700000000002x'') example_fields example_store = example_store
   \<and> removePurchase (js ''1700000000002x'') example_store = example_store
   \<and> (1::nat) < length (purchases example_store)
   \<and> purchases (updatePurchase (js ''1700000000002x'') example_fields example_store) ! 1 =
       (if purchase_id (purchases example_store ! 1) = js ''1700000000002x''
        then spread (purchases example_store ! 1) example_fields
        else purchases example_store ! 1)"
proof -
  have h: "js ''1700000000002x'' \<notin> set (ids example_store)"
    by (simp add: example_store_def ids_def js_def)
  have k: "(1::nat) < length (purchases example_store)"
    by (simp add: example_store_def)
  from absent_id_noop [of "js ''1700000000002x''" example_store example_fields] h k
  show ?thesis by blast
qed

subsection \<open>What an update changes\<close>

text \<open>
  Claim C8, as stated: an update never changes the id of an entry. It fails:
  \<^verbatim>\<open>Partial<Purchase>\<close> has an \<^verbatim>\<open>id\<close> field, and the spread copies it over the entry's id.
  In the example store, \<^verbatim>\<open>updatePurchase("1700000000001k3f", { id: "1700000000000" })\<close>
  changes the list of ids.
\<close>

theorem update_changes_id_counterexample:
  "ids (updatePurchase (js ''1700000000001k3f'')
          \<lparr> id_field = Some (js ''1700000000000''), units_field = None, price_field = None \<rparr>
          example_store)
   \<noteq> ids example_store"
  by (simp add: example_store_def ids_def js_def updatePurchase_def spread_def)

text \<open>
  Claim C8, amended: \<^verbatim>\<open>updatePurchase(id, fields)\<close> keeps the length of the list; an
  entry with another id is unchanged, at its position; an entry with this id stays at its
  position and has, for each of \<^verbatim>\<open>units\<close>, \<^verbatim>\<open>price\<close> and \<^verbatim>\<open>id\<close>, the value given in
  \<open>fields\<close> when the field is present there and its old value otherwise. So when
  \<open>fields\<close> has no \<^verbatim>\<open>id\<close>, no id of the list changes.
\<close>

theorem update_frame:
  "length (purchases (updatePurchase i fs s)) = length (purchases s)
   \<and> (\<forall>k < length (purchases s).
        (purchase_id (purchases s ! k) \<noteq> i \<longrightarrow>
           purchases (updatePurchase i fs s) ! k = purchases s ! k)
      \<and> (purchase_id (purchases s ! k) = i \<longrightarrow>
           units (purchases (updatePurchase i fs s) ! k) =
             (case units_field fs of None \<Rightarrow> units (purchases s ! k) | Some u \<Rightarrow> u)
         \<and> price (purchases (updatePurchase i fs s) ! k) =
             (case price_field fs of None \<Rightarrow> price (purchases s ! k) | Some c \<Rightarrow> c)
         \<and> purchase_id (purchases (updatePurchase i fs s) ! k) =
             (case id_field fs of None \<Rightarrow> i | Some j \<Rightarrow> j)))
   \<and> (id_field fs = None \<longrightarrow> ids (updatePurchase i fs s) = ids s)"
  by (simp add: update_length update_nth ids_update_no_id) (auto simp: spread_def split: option.splits)

theorem update_frame_witness:
  "(0::nat) < length (purchases example_store)
   \<and> (1::nat) < length (purchases example_store)
   \<and> purchase_id (purchases example_store ! 0) \<noteq> js ''1700000000001k3f''
   \<and> purchase_id (purchases example_store ! 1) = js ''1700000000001k3f''
   \<and> id_field example_fields = None
   \<and> purchases (updatePurchase (js ''1700000000001k3f'') example_fields example_store) ! 0
        = purchases example_store ! 0
   \<and> units (purchases (updatePurchase (js ''1700000000001k3f'') example_fields example_store) ! 1)
        = Str (js ''7'')
   \<and> price (purchases (updatePurchase (js ''1700000000001k3f'') example_fields example_store) ! 1)
        = Str []
   \<and> ids (updatePurchase (js ''1700000000001k3f'') example_fields example_store)
        = ids example_store"
proof -
  let ?i = "js ''1700000000001k3f''"
  have k0: "(0::nat) < length (purchases example_store)"
    and k1: "(1::nat) < length (purchases example_store)"
    by (simp_all add: example_store_def)
  have p0: "purchase_id (purchases example_store ! 0) \<noteq> ?i"
    and p1: "purchase_id (purchases example_store ! 1) = ?i"
    by (simp_all add: example_store_def js_def)
  have n: "id_field example_fields = None"
    by (simp add: example_fields_def)
  have u: "units_field example_fields = Some (Str (js ''7''))"
    and c: "price_field example_fields = None"
    and q: "price (purchases example_store ! 1) = Str []"
    by (simp_all add: example_fields_def example_store_def)
  note t = update_frame [of ?i example_fields example_store]
  from t k0 p0 have a: "purchases (updatePurchase ?i example_fields example_store) ! 0
        = purchases example_store ! 0" by blast
  from t k1 p1 have b: "units (purchases (updatePurchase ?i example_fields example_store) ! 1) =
             (case units_field example_fields of None \<Rightarrow> units (purchases example_store ! 1) | Some u \<Rightarrow> u)
         \<and> price (purchases (updatePurchase ?i example_fields example_store) ! 1) =
             (case price_field example_fields of None \<Rightarrow> price (purchases example_store ! 1) | Some c \<Rightarrow> c)"
    by blast
  from t n have d: "ids (updatePurchase ?i example_fields example_store) = ids example_store"
    by blast
  from b u c q have b': "units (purchases (updatePurchase ?i example_fields example_store) ! 1) = Str (js ''7'')
     \<and> price (purchases (updatePurchase ?i example_fields example_store) ! 1) = Str []"
    by simp
  from k0 k1 p0 p1 n a b' d show ?thesis by blast
qed

section \<open>Properties of the sanitizer\<close>

lemma is_digit_iff: "is_digit c \<longleftrightarrow> c \<in> {48, 49, 50, 51, 52, 53, 54, 55, 56, 57}"
  unfolding is_digit_def by (simp; arith)

lemma strip_eq: "replace_non_numeric v = spec_strip v"
  unfolding replace_non_numeric_def spec_strip_def dot_def is_digit_iff ..

lemma indexOf_range: "indexOf s c = - 1 \<or> 0 \<le> indexOf s c"
  by (induction s) (auto simp: Let_def)

lemma indexOf_absent: "indexOf s c = - 1 \<longleftrightarrow> c \<notin> set s"
proof (induction s)
  case Nil show ?case by simp
next
  case (Cons x xs)
  from indexOf_range [of xs c] have "indexOf xs c + 1 \<noteq> - 1" by arith
  with Cons show ?case by (simp add: Let_def)
qed

lemma split_not_Nil: "split s c \<noteq> []"
  by (induction s) (auto split: list.splits)

lemma concat_split: "concat (split s c) = filter (\<lambda>x. x \<noteq> c) s"
  by (induction s) (auto split: list.splits)

lemma split_join: "c \<in> set s \<Longrightarrow>
   (case split s c of intPart # rest \<Rightarrow> intPart @ [c] @ join_empty rest | [] \<Rightarrow> s) = 
   takeWhile (\<lambda>x. x \<noteq> c) s @ c # filter (\<lambda>x. x \<noteq> c) (tl (dropWhile (\<lambda>x. x \<noteq> c) s))"
proof (induction s)
  case Nil
  then show ?case by simp
next
  case (Cons x xs)
  show ?case
  proof (cases "x = c")
    case True
    then show ?thesis by (simp add: concat_split join_empty_def)
  next
    case False
    with Cons.prems have "c \<in> set xs" by simp
    from Cons.IH [OF this] False split_not_Nil [of xs c] show ?thesis
      by (auto split: list.splits)
  qed
qed

lemma keep_first_dot_eq:
  "spec_keep_first_dot s =
     (if dot \<in> set s
      then takeWhile (\<lambda>x. x \<noteq> dot) s @ dot # filter (\<lambda>x. x \<noteq> dot) (tl (dropWhile (\<lambda>x. x \<noteq> dot) s))
      else s)"
  unfolding dot_def by (induction s) auto

lemma prepend_eq: "(if startsWith s dot then 48 # s else s) = spec_prepend_zero s"
  by (cases s) (auto simp: startsWith_def dot_def)

lemma sanitize_eq_spec:
  "sanitizeNumericInput v = spec_prepend_zero (spec_keep_first_dot (spec_strip v))"
proof -
  let ?s = "spec_strip v"
  have "(if indexOf ?s dot \<noteq> - 1
               then (case split ?s dot of
                       intPart # rest \<Rightarrow> intPart @ [dot] @ join_empty rest
                     | [] \<Rightarrow> ?s)
               else ?s) = spec_keep_first_dot ?s"
    by (simp add: indexOf_absent split_join keep_first_dot_eq)
  then show ?thesis
    by (simp add: sanitizeNumericInput_def strip_eq Let_def prepend_eq)
qed

lemma clean_eq_spec: "clean v = spec_sanitizer v"
  by (simp add: clean_def spec_sanitizer_def sanitize_eq_spec)

lemmas sanitize_eval = clean_def trim_def is_white_space_def sanitizeNumericInput_def
  replace_non_numeric_def is_digit_def dot_def join_empty_def startsWith_def js_def

lemma clean_ex1: "clean (js ''1.2.3'') = js ''1.23''"
  and clean_ex2: "clean (js ''.5'') = js ''0.5''"
  and clean_ex3: "clean (js ''ab12c.3'') = js ''12.3''"
  and clean_ex4: "clean (js '''') = js ''''"
  and clean_ex5: "clean (js ''-'') = js ''''"
  by (simp_all add: sanitize_eval)

lemma trim_Nil_iff: "trim s = [] \<longleftrightarrow> (\<forall>c \<in> set s. is_white_space c)"
proof -
  have "trim s = [] \<longleftrightarrow> (\<forall>c \<in> set (dropWhile is_white_space s). is_white_space c)"
    by (simp add: trim_def dropWhile_eq_Nil_conv)
  also have "\<dots> \<longleftrightarrow> dropWhile is_white_space s = []"
  proof
    assume a: "\<forall>c \<in> set (dropWhile is_white_space s). is_white_space c"
    show "dropWhile is_white_space s = []"
    proof (rule ccontr)
      assume n: "dropWhile is_white_space s \<noteq> []"
      then have "\<not> is_white_space (hd (dropWhile is_white_space s))"
        by (rule hd_dropWhile)
      moreover from n have "hd (dropWhile is_white_space s) \<in> set (dropWhile is_white_space s)"
        by simp
      ultimately show False using a by blast
    qed
  next
    assume e: "dropWhile is_white_space s = []"
    show "\<forall>c \<in> set (dropWhile is_white_space s). is_white_space c"
      unfolding e by simp
  qed
  also have "\<dots> \<longleftrightarrow> (\<forall>c \<in> set s. is_white_space c)"
    by (simp add: dropWhile_eq_Nil_conv)
  finally show ?thesis .
qed

lemma digit_not_dot: "is_digit c \<Longrightarrow> c \<noteq> 46"
  by (simp add: is_digit_def)

lemma digit_not_space: "is_digit c \<Longrightarrow> \<not> is_white_space c"
  by (simp add: is_digit_def is_white_space_def)

lemma dot_not_space: "\<not> is_white_space dot"
  by (simp add: dot_def is_white_space_def)

lemma strip_set: "c \<in> set (spec_strip v) \<Longrightarrow> is_digit c \<or> c = dot"
  by (auto simp: spec_strip_def is_digit_def dot_def)

lemma digits_dot_keep:
  "\<forall>c \<in> set s. is_digit c \<or> c = dot \<Longrightarrow> digits_dot (spec_keep_first_dot s)"
  by (induction s) (auto simp: dot_def list_all_iff)

lemma digits_dot_prepend: "digits_dot s \<Longrightarrow> digits_dot (spec_prepend_zero s)"
  by (cases s) (auto simp: dot_def is_digit_def)

lemma prepend_no_dot: "\<not> startsWith (spec_prepend_zero s) dot"
  by (cases s) (auto simp: startsWith_def dot_def)

lemma cleaned_sanitize: "cleaned (sanitizeNumericInput v)"
  by (simp add: cleaned_def sanitize_eq_spec prepend_no_dot digits_dot_prepend
      digits_dot_keep strip_set)

lemma cleaned_clean: "cleaned (clean v)"
  by (simp add: clean_def cleaned_sanitize) (simp add: cleaned_def startsWith_def)

lemma digits_dot_set: "digits_dot s \<Longrightarrow> c \<in> set s \<Longrightarrow> is_digit c \<or> c = dot"
  by (induction s) (auto simp: list_all_iff split: if_splits)

lemma strip_id: "digits_dot s \<Longrightarrow> spec_strip s = s"
proof -
  assume "digits_dot s"
  then have "\<forall>c \<in> set s. c \<in> {48, 49, 50, 51, 52, 53, 54, 55, 56, 57} \<or> c = 46"
    using digits_dot_set [of s] by (auto simp: is_digit_iff dot_def)
  then show ?thesis unfolding spec_strip_def by (simp add: filter_id_conv)
qed

lemma keep_id: "digits_dot s \<Longrightarrow> spec_keep_first_dot s = s"
  by (induction s) (auto simp: dot_def list_all_iff filter_id_conv dest: digit_not_dot split: if_splits)

lemma prepend_id: "\<not> startsWith s dot \<Longrightarrow> spec_prepend_zero s = s"
  by (cases s) (auto simp: startsWith_def dot_def)

lemma cleaned_not_blank: "cleaned s \<Longrightarrow> s \<noteq> [] \<Longrightarrow> trim s \<noteq> []"
proof -
  assume c: "cleaned s" and n: "s \<noteq> []"
  then obtain x xs where s: "s = x # xs" by (cases s) auto
  with c have "is_digit x" by (auto simp: cleaned_def startsWith_def split: if_splits)
  then have "\<not> is_white_space x" by (rule digit_not_space)
  with s show ?thesis by (auto simp: trim_Nil_iff)
qed

lemma clean_cleaned: "cleaned s \<Longrightarrow> clean s = s"
proof (cases "s = []")
  case True
  then show ?thesis by (simp add: clean_def trim_def)
next
  case False
  assume c: "cleaned s"
  with False have "trim s \<noteq> []" by (simp add: cleaned_not_blank)
  moreover from c have "sanitizeNumericInput s = s"
    by (simp add: cleaned_def sanitize_eq_spec strip_id keep_id prepend_id)
  ultimately show ?thesis by (simp add: clean_def)
qed

text \<open>
  Claim C9: the sanitization step of the editor, with its pass-through of a text that is
  empty after trimming, is idempotent: applied to its own output it returns that output.
\<close>

theorem clean_idempotent: "clean (clean v) = clean v"
  by (rule clean_cleaned [OF cleaned_clean])

text \<open>
  Claim C2: for every raw text the editor's cleaned value is the one the three steps
  describe: when the text is not empty after trimming, strip every code unit that is not
  a digit or a dot, keep the first dot only, and put \<^verbatim>\<open>"0"\<close> in front of a leading dot; a
  text that is empty or all white space gives the empty string. In particular
  \<^verbatim>\<open>"1.2.3"\<close> gives \<^verbatim>\<open>"1.23"\<close>, \<^verbatim>\<open>".5"\<close> gives \<^verbatim>\<open>"0.5"\<close>, \<^verbatim>\<open>"ab12c.3"\<close> gives \<^verbatim>\<open>"12.3"\<close>
  and \<^verbatim>\<open>""\<close> gives \<^verbatim>\<open>""\<close>.
\<close>

theorem clean_follows_steps:
  "clean v = spec_sanitizer v
   \<and> (trim v = [] \<longleftrightarrow> list_all is_white_space v)
   \<and> (list_all is_white_space v \<longrightarrow> clean v = [])
   \<and> clean (js ''1.2.3'') = js ''1.23''
   \<and> clean (js ''.5'') = js ''0.5''
   \<and> clean (js ''ab12c.3'') = js ''12.3''
   \<and> clean (js '''') = js ''''"
proof -
  have t: "trim v = [] \<longleftrightarrow> list_all is_white_space v"
    by (simp add: trim_Nil_iff list_all_iff)
  then have "list_all is_white_space v \<longrightarrow> clean v = []"
    by (simp add: clean_def)
  with t clean_eq_spec [of v] clean_ex1 clean_ex2 clean_ex3 clean_ex4 show ?thesis
    by blast
qed

theorem clean_follows_steps_witness:
  "list_all is_white_space (js '' '' @ [9, 160]) \<and> clean (js '' '' @ [9, 160]) = []"
proof -
  have h: "list_all is_white_space (js '' '' @ [9, 160])"
    by (simp add: js_def is_white_space_def)
  with clean_follows_steps [of "js '' '' @ [9, 160]"] show ?thesis
    by blast
qed

section \<open>Properties of numbers\<close>

lemma pow2_pos: "0 < pow2 e"
  by (simp add: pow2_def)

lemma round_half_even_nonneg: "0 \<le> x \<Longrightarrow> 0 \<le> round_half_even x"
  by (auto simp: round_half_even_def Let_def)

lemma to_double_pos:
  assumes "0 < x"
    and "binary_exponent x = b"
    and "max (b - 52) (- 1074) = e"
    and "round_half_even (x / pow2 e) = m"
    and "of_int m * pow2 e = y"
    and "y < 2 ^ 1024"
  shows "to_double x = Fin y"
  using assms by (simp add: to_double_def Let_def)


lemma to_double_minus: "to_double (- x) = (case to_double x of Fin y \<Rightarrow> Fin (- y) | PInf \<Rightarrow> NInf | NInf \<Rightarrow> PInf | NaN \<Rightarrow> NaN)"
  by (simp add: to_double_def Let_def)

lemma to_double_nonneg:
  assumes "0 \<le> x"
  shows "to_double x = PInf \<or> (\<exists>y\<ge>0. to_double x = Fin y)"
proof (cases "x = 0")
  case True
  then show ?thesis by (simp add: to_double_def)
next
  case False
  with assms have "0 < x" by simp
  define e where "e = max (binary_exponent \<bar>x\<bar> - 52) (- 1074)"
  have "0 \<le> \<bar>x\<bar> / pow2 e" using pow2_pos [of e] by simp
  then have "0 \<le> round_half_even (\<bar>x\<bar> / pow2 e)" by (rule round_half_even_nonneg)
  then have "0 \<le> of_int (round_half_even (\<bar>x\<bar> / pow2 e)) * pow2 e"
    using pow2_pos [of e] by simp
  with \<open>0 < x\<close> show ?thesis
    by (simp add: to_double_def Let_def e_def)
qed

lemma bit_length_bounds: "0 < n \<Longrightarrow> 2 ^ (bit_length n - 1) \<le> n \<and> n < 2 ^ bit_length n"
proof (induction n rule: bit_length.induct)
  case (1 n)
  show ?case
  proof (cases "n div 2 = 0")
    case True
    with "1.prems" have "n = 1" by (simp add: div_eq_0_iff) 
    then show ?thesis by (simp add: bit_length.simps)
  next
    case False
    then have pos: "0 < n div 2" by simp
    from "1.prems" have n0: "n \<noteq> 0" by simp
    from "1.IH" [OF n0 pos]
    have lo: "2 ^ (bit_length (n div 2) - 1) \<le> n div 2" and hi: "n div 2 < 2 ^ bit_length (n div 2)"
      by simp_all
    have bl: "bit_length n = bit_length (n div 2) + 1"
      using n0 by (subst bit_length.simps) simp
    have bpos: "0 < bit_length (n div 2)"
      using pos by (subst bit_length.simps) simp
    from lo have "2 * 2 ^ (bit_length (n div 2) - 1) \<le> n" by arith
    moreover have "2 * 2 ^ (bit_length (n div 2) - 1) = (2::nat) ^ bit_length (n div 2)"
      using bpos by (cases "bit_length (n div 2)") simp_all
    moreover from hi have "n < 2 * 2 ^ bit_length (n div 2)" by arith
    ultimately show ?thesis by (simp add: bl)
  qed
qed

lemma round_half_even_int: "round_half_even (of_int k) = k"
  by (simp add: round_half_even_def)

lemma to_double_nat:
  assumes "n < 2 ^ 53"
  shows "to_double (of_nat n) = Fin (of_nat n)"
proof (cases "n = 0")
  case True
  then show ?thesis by (simp add: to_double_def)
next
  case False
  then have pos: "0 < n" by simp
  define b where "b = bit_length n"
  from bit_length_bounds [OF pos] have lo: "2 ^ (b - 1) \<le> n" and hi: "n < 2 ^ b"
    by (simp_all add: b_def)
  have b1: "1 \<le> b" using pos hi by (cases b) simp_all
  have "(2::nat) ^ (b - 1) < 2 ^ 53" using lo assms by (rule le_less_trans)
  then have "b - 1 < 53" by (rule power_less_imp_less_exp [rotated]) simp
  then have b53: "b \<le> 53" by simp
  have x1: "(1::rat) \<le> of_nat n" using pos by simp
  have be: "binary_exponent (of_nat n) = int b - 1"
    using x1 by (simp add: binary_exponent_def b_def)
  define k where "k = 53 - b"
  have e: "max (int b - 1 - 52) (- 1074) = - int k"
    using b53 by (simp add: k_def)
  have p: "pow2 (- int k) = 1 / 2 ^ k"
    by (simp add: pow2_def)
  have "(of_nat n :: rat) / pow2 (- int k) = of_int (int n * 2 ^ k)"
    by (simp add: p)
  then have r: "round_half_even (of_nat n / pow2 (- int k)) = int n * 2 ^ k"
    by (simp only: round_half_even_int)
  have y: "of_int (int n * 2 ^ k) * pow2 (- int k) = (of_nat n :: rat)"
    by (simp add: p)
  have "(of_nat n :: rat) < of_nat (2 ^ 53)" using assms by (simp only: of_nat_less_iff)
  also have "\<dots> < 2 ^ 1024" by simp
  finally have small: "(of_nat n :: rat) < 2 ^ 1024" .
  from pos have xpos: "(0::rat) < of_nat n" by simp
  show ?thesis
    by (rule to_double_pos [OF xpos be e r y small])
qed

lemma floor_rat_numeral [simp]:
  "\<lfloor>numeral a / numeral b :: rat\<rfloor> = numeral a div numeral b"
  using floor_divide_of_int_eq [of "numeral a" "numeral b", where ?'a = rat] by simp

lemma floor_rat_neg_numeral [simp]:
  "\<lfloor>- (numeral a / numeral b) :: rat\<rfloor> = - numeral a div numeral b"
  using floor_divide_of_int_eq [of "- numeral a" "numeral b", where ?'a = rat] by simp

lemma ceiling_rat_numeral [simp]:
  "\<lceil>numeral a / numeral b :: rat\<rceil> = - (- numeral a div numeral b)"
  unfolding ceiling_def by simp

lemma to_double_1: "to_double 1 = Fin 1"
  using to_double_nat [of 1] by simp

lemma to_double_7_2: "to_double (7 / 2) = Fin (7 / 2)"
  apply (rule to_double_pos)
       apply simp
      apply (simp add: binary_exponent_def bit_length.simps)
     apply simp
    apply (simp add: pow2_def)
    apply (simp add: round_half_even_def Let_def)
   apply (simp add: pow2_def)
  apply simp
  done

lemma to_double_140_3: "to_double (140 / 3) = Fin (6567749456581973 / 140737488355328)"
  apply (rule to_double_pos)
       apply simp
      apply (simp add: binary_exponent_def bit_length.simps)
     apply simp
    apply (simp add: pow2_def)
    apply (simp add: round_half_even_def Let_def)
   apply (simp add: pow2_def)
  apply simp
  done

section \<open>Properties of the row schema\<close>

lemmas parse_eval = Number_string_def trim_def is_white_space_def non_decimal_literal_def
  take_sign_def unsigned_decimal_def exponent_part_def digits_value_def is_digit_def dot_def
  js_def pow10_def Let_def hex_digit_def

lemma Number_empty: "Number_string (js '''') = Fin 0"
  by (simp add: parse_eval)

lemma Number_minus_1: "Number_string (js ''-1'') = Fin (- 1)"
  by (simp add: parse_eval to_double_minus to_double_1)

lemma Number_3_5: "Number_string (js ''3.5'') = Fin (7 / 2)"
  by (simp add: parse_eval to_double_7_2)

lemma Number_Infinity: "Number_string (js ''Infinity'') = PInf"
  by (simp add: parse_eval)

lemma refine_iff: "refine n \<longleftrightarrow> non_negative n"
  by (cases n) (auto simp: refine_def non_negative_def isNaN_def js_ge_def)

lemma field_issues_Nil: "field_issues z f v = [] \<longleftrightarrow> union_accepts z v \<and> non_negative (transform v)"
  by (simp add: field_issues_def refine_iff)

lemma trim_js: "trim (js '''') = []" "trim (js ''-1'') \<noteq> []" "trim (js ''3.5'') \<noteq> []" "trim (js ''Infinity'') \<noteq> []"
  by (simp_all add: trim_def js_def is_white_space_def)

text \<open>
  Claim C3, as stated: the schema accepts a field value if and only if its numeric value
  is a finite number that is at least zero. It fails: the text \<^verbatim>\<open>"Infinity"\<close> is a string,
  \<^verbatim>\<open>Number("Infinity")\<close> is \<open>+Infinity\<close>, which is not NaN and is \<^verbatim>\<open>>= 0\<close>, so the field
  has no issue, whichever version of zod is used; and \<open>+Infinity\<close> is not finite.
\<close>

theorem schema_accepts_infinity_counterexample:
  "field_issues True Units (Str (js ''Infinity'')) = []
   \<and> field_issues False Units (Str (js ''Infinity'')) = []
   \<and> transform (Str (js ''Infinity'')) = PInf
   \<and> \<not> finite_non_negative (transform (Str (js ''Infinity'')))"
  by (simp add: field_issues_Nil union_accepts_def transform_def trim_js Number_Infinity
      non_negative_def finite_non_negative_def)

text \<open>
  Claim C3, amended: a field value has no issue if and only if the union accepts it (every
  string; every number but NaN and, with a zod that excludes them, the infinities) and its
  numeric value, with a blank string as 0 and any other string as \<^verbatim>\<open>Number\<close> of it, is a
  number that is at least zero, \<open>+Infinity\<close> included. A value that the union accepts and
  that fails has the one issue with the message of its field. In particular \<^verbatim>\<open>""\<close> is
  valid, \<^verbatim>\<open>"-1"\<close> is invalid with the message
  \<^verbatim>\<open>"<Field> must be a non-negative number"\<close>, and \<^verbatim>\<open>"3.5"\<close> is valid.
\<close>

theorem schema_accepts_non_negative:
  "(field_issues z f v = [] \<longleftrightarrow> union_accepts z v \<and> non_negative (transform v))
   \<and> (field_issues z f v \<noteq> [] \<and> union_accepts z v \<longrightarrow>
        field_issues z f v = [\<lparr> path = f, message = refine_message f \<rparr>])
   \<and> field_issues z f (Str (js '''')) = []
   \<and> field_issues z f (Str (js ''-1'')) = [\<lparr> path = f, message = refine_message f \<rparr>]
   \<and> field_issues z f (Str (js ''3.5'')) = []
   \<and> refine_message Units = js ''Units must be a non-negative number''
   \<and> refine_message Price = js ''Price must be a non-negative number''"
proof -
  have a: "field_issues z f (Str (js '''')) = []"
    by (simp add: field_issues_Nil union_accepts_def transform_def trim_js non_negative_def)
  have b: "field_issues z f (Str (js ''-1'')) = [\<lparr> path = f, message = refine_message f \<rparr>]"
    by (simp add: field_issues_def refine_iff union_accepts_def transform_def trim_js
        Number_minus_1 non_negative_def)
  have c: "field_issues z f (Str (js ''3.5'')) = []"
    by (simp add: field_issues_Nil union_accepts_def transform_def trim_js Number_3_5
        non_negative_def)
  have d: "field_issues z f v \<noteq> [] \<and> union_accepts z v \<longrightarrow>
        field_issues z f v = [\<lparr> path = f, message = refine_message f \<rparr>]"
    by (simp add: field_issues_def)
  have e: "refine_message Units = js ''Units must be a non-negative number''"
    "refine_message Price = js ''Price must be a non-negative number''"
    by (simp_all add: refine_message_def)
  from field_issues_Nil [of z f v] a b c d e show ?thesis by blast
qed

theorem schema_accepts_non_negative_witness:
  "field_issues True Units (Str (js ''-1'')) \<noteq> []
   \<and> union_accepts True (Str (js ''-1''))
   \<and> field_issues True Units (Str (js ''-1'')) =
       [\<lparr> path = Units, message = refine_message Units \<rparr>]
   \<and> \<not> non_negative (transform (Str (js ''-1'')))"
proof -
  have u: "union_accepts True (Str (js ''-1''))"
    by (simp add: union_accepts_def)
  have n: "\<not> non_negative (transform (Str (js ''-1'')))"
    by (simp add: transform_def trim_js Number_minus_1 non_negative_def)
  note t = schema_accepts_non_negative [of True Units "Str (js ''-1'')"]
  from t u n have i: "field_issues True Units (Str (js ''-1'')) \<noteq> []" by blast
  with t u have "field_issues True Units (Str (js ''-1'')) =
       [\<lparr> path = Units, message = refine_message Units \<rparr>]" by blast
  with i u n show ?thesis by blast
qed

section \<open>Cleaned values and the schema\<close>

lemma trim_no_space: "\<forall>c \<in> set s. \<not> is_white_space c \<Longrightarrow> trim s = s"
proof -
  assume a: "\<forall>c \<in> set s. \<not> is_white_space c"
  then have "dropWhile is_white_space s = s"
    by (cases s) auto
  moreover from a have "dropWhile is_white_space (rev s) = rev s"
    by (cases "rev s") (auto simp: rev_eq_Cons_iff)
  ultimately show ?thesis by (simp add: trim_def)
qed

lemma digits_dot_no_space: "digits_dot s \<Longrightarrow> c \<in> set s \<Longrightarrow> \<not> is_white_space c"
  using digits_dot_set [of s c] digit_not_space [of c] dot_not_space by auto

lemma dot_not_digit: "\<not> is_digit dot"
  by (simp add: is_digit_def dot_def)

lemma digits_dot_rest:
  "digits_dot s \<Longrightarrow>
     dropWhile is_digit s = [] \<or> (\<exists>cs. dropWhile is_digit s = dot # cs \<and> list_all is_digit cs)"
  by (induction s) (auto simp: dot_not_digit list_all_iff split: if_splits)

lemma pow10_pos: "0 < pow10 e"
  by (simp add: pow10_def)

lemma cleaned_Cons: "cleaned (x # xs) \<Longrightarrow> is_digit x"
  by (auto simp: cleaned_def startsWith_def split: if_splits)

lemma unsigned_decimal_cleaned:
  assumes "cleaned s" "s \<noteq> []"
  shows "\<exists>q\<ge>0. unsigned_decimal s = Some q"
proof -
  from assms obtain x xs where s: "s = x # xs" by (cases s) auto
  with assms have dx: "is_digit x" by (simp add: cleaned_Cons)
  with s have ip: "takeWhile is_digit s \<noteq> []" by simp
  from assms have "digits_dot s" by (simp add: cleaned_def)
  from digits_dot_rest [OF this] show ?thesis
  proof
    assume r: "dropWhile is_digit s = []"
    have "unsigned_decimal s = Some (of_nat (digits_value (takeWhile is_digit s)) * pow10 0)"
      using ip by (simp add: unsigned_decimal_def Let_def r exponent_part_def)
    then show ?thesis by (simp add: pow10_def)
  next
    assume "\<exists>cs. dropWhile is_digit s = dot # cs \<and> list_all is_digit cs"
    then obtain cs where r: "dropWhile is_digit s = dot # cs" and cs: "list_all is_digit cs"
      by blast
    from cs have t: "takeWhile is_digit cs = cs" and d: "dropWhile is_digit cs = []"
      by (simp_all add: list_all_iff)
    have "unsigned_decimal s =
        Some (of_nat (digits_value (takeWhile is_digit s @ cs)) * pow10 (0 - int (length cs)))"
      using ip by (simp add: unsigned_decimal_def Let_def r t d exponent_part_def)
    moreover have "0 \<le> of_nat (digits_value (takeWhile is_digit s @ cs)) * pow10 (0 - int (length cs))"
      using pow10_pos [of "0 - int (length cs)"] by simp
    ultimately show ?thesis by blast
  qed
qed

lemma non_decimal_cleaned:
  assumes "cleaned s"
  shows "non_decimal_literal s = None"
proof (cases s)
  case Nil
  then show ?thesis by (simp add: non_decimal_literal_def)
next
  case (Cons z t)
  show ?thesis
  proof (cases t)
    case Nil
    with Cons show ?thesis by (simp add: non_decimal_literal_def)
  next
    case (Cons p ds)
    from assms have "digits_dot s" by (simp add: cleaned_def)
    with \<open>s = z # t\<close> Cons have "is_digit p \<or> p = dot"
      using digits_dot_set [of s p] by simp
    then have "p \<noteq> 98 \<and> p \<noteq> 66 \<and> p \<noteq> 111 \<and> p \<noteq> 79 \<and> p \<noteq> 120 \<and> p \<noteq> 88"
      by (auto simp: is_digit_def dot_def)
    with \<open>s = z # t\<close> Cons show ?thesis by (simp add: non_decimal_literal_def)
  qed
qed

lemma Number_cleaned:
  assumes "cleaned s" "s \<noteq> []"
  shows "\<exists>q\<ge>0. Number_string s = to_double q"
proof -
  from assms obtain x xs where s: "s = x # xs" by (cases s) auto
  with assms have dx: "is_digit x" by (simp add: cleaned_Cons)
  from assms have "digits_dot s" by (simp add: cleaned_def)
  then have "\<forall>c \<in> set s. \<not> is_white_space c" by (blast dest: digits_dot_no_space)
  then have t: "trim s = s" by (rule trim_no_space)
  from dx have "x \<noteq> 45" "x \<noteq> 43" "x \<noteq> 73" by (auto simp: is_digit_def)
  with s have sg: "take_sign s = (False, s)" and inf: "s \<noteq> js ''Infinity''"
    by (auto simp: take_sign_def js_def)
  from unsigned_decimal_cleaned [OF assms] obtain q where q: "0 \<le> q" "unsigned_decimal s = Some q"
    by blast
  have "Number_string s = to_double q"
    using assms(2) by (simp add: Number_string_def t non_decimal_cleaned [OF assms(1)] sg inf q)
  with q show ?thesis by blast
qed

lemma non_negative_to_double: "0 \<le> q \<Longrightarrow> non_negative (to_double q)"
  using to_double_nonneg [of q] by (auto simp: non_negative_def)

lemma transform_cleaned: "cleaned s \<Longrightarrow> non_negative (transform (Str s))"
proof (cases "trim s = []")
  case True
  then show ?thesis by (simp add: transform_def non_negative_def)
next
  case False
  assume c: "cleaned s"
  from False have "s \<noteq> []" by (auto simp: trim_def)
  from Number_cleaned [OF c this] False show ?thesis
    by (auto simp: transform_def non_negative_to_double)
qed

lemma field_issues_cleaned: "cleaned s \<Longrightarrow> field_issues z f (Str s) = []"
  by (simp add: field_issues_Nil union_accepts_def transform_cleaned)

lemma field_issues_clean: "field_issues z f (Str (clean v)) = []"
  by (rule field_issues_cleaned [OF cleaned_clean])

section \<open>Properties of the row editor\<close>

lemma field_issues_path: "i \<in> set (field_issues z f v) \<Longrightarrow> path i = f"
  by (auto simp: field_issues_def split: if_splits)

lemma find_other_field: "g \<noteq> f \<Longrightarrow> find (\<lambda>i. path i = f) (field_issues z g v) = None"
  by (auto simp: find_None_iff dest: field_issues_path)

lemma safeParse_edited:
  "(case RowSchema_safeParse z
           (case f of Units \<Rightarrow> Str (clean v) | Price \<Rightarrow> u)
           (case f of Units \<Rightarrow> p | Price \<Rightarrow> Str (clean v)) of
      Failure issues \<Rightarrow>
        (case find (\<lambda>i. path i = f) issues of
           Some i \<Rightarrow> set_error f (Some (message i)) e
         | None \<Rightarrow> set_error f None e)
    | Success _ _ \<Rightarrow> set_error f None e) = set_error f None e"
  by (cases f)
    (simp_all add: RowSchema_safeParse_def field_issues_clean find_other_field Let_def)

lemma handleChange_eq:
  "handleChange z row f v (e, st) =
     (set_error f None e, updatePurchase (purchase_id row) (only_field f (Str (clean v))) st)"
  by (simp add: handleChange_def Let_def safeParse_edited)

lemma error_of_set_error: "error_of f (set_error f m e) = m"
  by (cases f) (simp_all add: error_of_def set_error_def)

lemma set_error_no_errors: "set_error f None no_errors = no_errors"
  by (cases f) (simp_all add: set_error_def no_errors_def)

lemma cleaned_Nil: "cleaned []"
  by (simp add: cleaned_def startsWith_def)

lemma page_ok_initial: "page_ok (initial_page now)"
  by (simp add: page_ok_def initial_page_def initial_state_def cleaned_val_def cleaned_Nil)

lemma spread_only_field:
  "cleaned_val (units p) \<Longrightarrow> cleaned_val (price p) \<Longrightarrow>
     cleaned_val (units (spread p (only_field f (Str (clean v)))))
     \<and> cleaned_val (price (spread p (only_field f (Str (clean v)))))"
  by (cases f) (simp_all add: spread_def only_field_def cleaned_val_def cleaned_clean)

lemma page_ok_react: "page_ok pg \<Longrightarrow> page_ok (react z ev pg)"
proof (cases ev)
  case (ClickAdd now rnd)
  assume "page_ok pg"
  with ClickAdd show ?thesis
    by (simp add: page_ok_def addPurchase_def cleaned_val_def cleaned_Nil)
next
  case ClickReset
  then show ?thesis by (simp add: page_ok_def resetPurchases_def)
next
  case (ClickRemove k)
  assume "page_ok pg"
  with ClickRemove show ?thesis
    by (simp add: page_ok_def removePurchase_def Let_def)
next
  case (Change k f v)
  assume ok: "page_ok pg"
  show ?thesis
  proof (cases "k < length (purchases (store pg))")
    case False
    with Change ok show ?thesis by simp
  next
    case True
    let ?row = "purchases (store pg) ! k"
    have r: "react z ev pg =
       \<lparr> store = updatePurchase (purchase_id ?row) (only_field f (Str (clean v))) (store pg),
         row_errors = (row_errors pg) (purchase_id ?row := set_error f None (row_errors pg (purchase_id ?row))) \<rparr>"
      using True Change by (simp add: Let_def handleChange_eq)
    from ok have e: "row_errors pg i = no_errors" for i by (simp add: page_ok_def)
    from ok have c: "p \<in> set (purchases (store pg)) \<Longrightarrow> cleaned_val (units p) \<and> cleaned_val (price p)" for p
      by (simp add: page_ok_def)
    have s: "cleaned_val (units (spread p (only_field f (Str (clean v)))))
        \<and> cleaned_val (price (spread p (only_field f (Str (clean v)))))"
      if "p \<in> set (purchases (store pg))" for p
      using c [OF that] by (simp add: spread_only_field)
    show ?thesis
      unfolding r page_ok_def
      by (auto simp: e set_error_no_errors updatePurchase_def s dest: c)
  qed
qed

lemma page_ok_react_all: "page_ok pg \<Longrightarrow> page_ok (react_all z evs pg)"
  by (induction evs arbitrary: pg) (simp_all add: page_ok_react)

lemma page_ok_reached: "page_ok (react_all z evs (initial_page now))"
  by (rule page_ok_react_all [OF page_ok_initial])

lemma no_error_branch:
  assumes "cleaned_val (units row)" "cleaned_val (price row)"
  shows "\<not> takes_error_branch z row f v"
proof -
  from assms obtain s t where u: "units row = Str s" "cleaned s" and p: "price row = Str t" "cleaned t"
    by (auto simp: cleaned_val_def split: val.splits)
  then show ?thesis
    by (cases f)
      (simp_all add: takes_error_branch_def RowSchema_safeParse_def Let_def field_issues_clean
        field_issues_cleaned)
qed

lemma store_react_Change:
  "store (react z (Change k f v) pg) =
     (if k < length (purchases (store pg))
      then updatePurchase (purchase_id (purchases (store pg) ! k)) (only_field f (Str (clean v)))
             (store pg)
      else store pg)"
  by (simp add: Let_def handleChange_eq)

lemma example_events_store:
  "purchases (store (react_all True example_events (initial_page 1700000000000))) =
     [\<lparr> purchase_id = js ''1700000000000'', units = Str [], price = Str [] \<rparr>,
      \<lparr> purchase_id = js ''1700000000001k3f'', units = Str (js ''1.23''), price = Str [] \<rparr>]"
proof -
  have "clean (map of_char ''1.2.3'') = map of_char ''1.23''"
    using clean_ex1 by (simp only: js_def)
  then show ?thesis
    by (simp add: example_events_def store_react_Change initial_page_def store_eval only_field_def
        del: react.simps(4))
qed

text \<open>
  Claim C10: for every raw text, the cleaned value is empty or has only digits and at most
  one dot, not in front; its numeric value is not NaN and not negative; and the row schema
  has no issue with it. So \<^verbatim>\<open>handleChange\<close> leaves no error message for the edited field,
  whatever the row; and on every page reached from the initial page by adding, resetting,
  removing and editing rows, no row has an error message and no edit of a row of the list
  takes the branch of a failed parse.
\<close>

theorem cleaned_value_always_valid:
  "cleaned (clean v)
   \<and> non_negative (transform (Str (clean v)))
   \<and> field_issues z f (Str (clean v)) = []
   \<and> error_of f (fst (handleChange z row f v (errors, st))) = None
   \<and> row_errors (react_all z evs (initial_page now)) i = no_errors
   \<and> (k < length (purchases (store (react_all z evs (initial_page now)))) \<longrightarrow>
        \<not> takes_error_branch z (purchases (store (react_all z evs (initial_page now))) ! k) f v)"
proof -
  have ok: "page_ok (react_all z evs (initial_page now))"
    by (rule page_ok_reached)
  then have a: "row_errors (react_all z evs (initial_page now)) i = no_errors"
    by (simp add: page_ok_def)
  have b: "\<not> takes_error_branch z (purchases (store (react_all z evs (initial_page now))) ! k) f v"
    if "k < length (purchases (store (react_all z evs (initial_page now))))"
  proof -
    from that have "purchases (store (react_all z evs (initial_page now))) ! k
        \<in> set (purchases (store (react_all z evs (initial_page now))))"
      by (rule nth_mem)
    with ok show ?thesis by (simp add: page_ok_def no_error_branch)
  qed
  have c: "error_of f (fst (handleChange z row f v (errors, st))) = None"
    by (simp add: handleChange_eq error_of_set_error)
  from a b c show ?thesis
    by (simp add: cleaned_clean transform_cleaned field_issues_clean)
qed

theorem cleaned_value_always_valid_witness:
  "1 < length (purchases (store (react_all True example_events (initial_page 1700000000000))))
   \<and> \<not> takes_error_branch True
         (purchases (store (react_all True example_events (initial_page 1700000000000))) ! 1)
         Price (js ''.5'')"
proof -
  have h: "1 < length (purchases (store (react_all True example_events (initial_page 1700000000000))))"
    by (simp add: example_events_store)
  with cleaned_value_always_valid [of "js ''.5''" True Price _ _ _ example_events 1700000000000 _ 1]
  show ?thesis by blast
qed

text \<open>
  Claim C5, as stated: typing \<^verbatim>\<open>"-"\<close> stores a cleaned value whose validation fails and
  sets an error message. It fails: the cleaned value of \<^verbatim>\<open>"-"\<close> is the empty string, the
  schema has no issue with it, and typing it into the empty first row of the initial store
  leaves the errors empty and the store as it was.
\<close>

theorem minus_sign_counterexample:
  "clean (js ''-'') = js ''''
   \<and> field_issues True Units (Str (clean (js ''-''))) = []
   \<and> field_issues False Units (Str (clean (js ''-''))) = []
   \<and> handleChange True \<lparr> purchase_id = js ''1700000000000'', units = Str [], price = Str [] \<rparr>
        Units (js ''-'') (no_errors, initial_state 1700000000000)
      = (no_errors, initial_state 1700000000000)"
proof -
  have i: "initial_state 1700000000000 =
      \<lparr> purchases = [\<lparr> purchase_id = js ''1700000000000'', units = Str [], price = Str [] \<rparr>] \<rparr>"
    by (simp add: store_eval)
  have c: "clean (js ''-'') = []" using clean_ex5 by (simp add: js_def)
  have "handleChange True \<lparr> purchase_id = js ''1700000000000'', units = Str [], price = Str [] \<rparr>
        Units (js ''-'') (no_errors, initial_state 1700000000000)
      = (no_errors, initial_state 1700000000000)"
    unfolding handleChange_eq c i
    by (simp add: set_error_no_errors updatePurchase_def spread_def only_field_def)
  with clean_ex5 field_issues_clean [of True Units "js ''-''"]
    field_issues_clean [of False Units "js ''-''"]
  show ?thesis by blast
qed

text \<open>
  Claim C5, amended: when the user types a text, for example \<^verbatim>\<open>"-"\<close>, the editor stores
  the cleaned value (for \<^verbatim>\<open>"-"\<close> the empty string) in the edited field of the rows with the
  row's id, as \<^verbatim>\<open>updatePurchase\<close> does, whatever the validation says; the validation of the
  cleaned value succeeds, and the error message of the edited field is cleared.
\<close>

theorem change_persists_cleaned:
  "snd (handleChange z row f v (errors, st)) =
     updatePurchase (purchase_id row) (only_field f (Str (clean v))) st
   \<and> (k < length (purchases st) \<and> purchases st ! k = row \<longrightarrow>
        field_of f (purchases (snd (handleChange z row f v (errors, st))) ! k) = Str (clean v))
   \<and> error_of f (fst (handleChange z row f v (errors, st))) = None
   \<and> field_issues z f (Str (clean v)) = []
   \<and> clean (js ''-'') = js ''''"
proof -
  have "field_of f (purchases (updatePurchase (purchase_id row) (only_field f (Str (clean v))) st) ! k)
      = Str (clean v)" if "k < length (purchases st)" "purchases st ! k = row"
    using that by (cases f) (simp_all add: update_nth spread_def only_field_def field_of_def)
  with clean_ex5 show ?thesis
    by (simp add: handleChange_eq error_of_set_error field_issues_clean)
qed

theorem change_persists_cleaned_witness:
  "(1::nat) < length (purchases example_store)
   \<and> purchases example_store ! 1 = purchases example_store ! 1
   \<and> field_of Price (purchases (snd (handleChange True (purchases example_store ! 1) Price
        (js ''ab12c.3'') (no_errors, example_store))) ! 1) = Str (js ''12.3'')"
proof -
  have h: "(1::nat) < length (purchases example_store)"
    by (simp add: example_store_def)
  from change_persists_cleaned [of True "purchases example_store ! 1" Price "js ''ab12c.3''"
      no_errors example_store 1] h
  have "field_of Price (purchases (snd (handleChange True (purchases example_store ! 1) Price
        (js ''ab12c.3'') (no_errors, example_store))) ! 1) = Str (clean (js ''ab12c.3''))"
    by blast
  with h show ?thesis by (simp add: clean_ex3)
qed

section \<open>Properties of the aggregator\<close>

lemma to_double_numeral:
  "(numeral k :: nat) < 2 ^ 53 \<Longrightarrow> to_double (numeral k) = Fin (numeral k)"
  using to_double_nat [of "numeral k"] by simp


lemma finite_or_zero: "(if isFinite n then n else Fin 0) = (case n of Fin q \<Rightarrow> Fin q | _ \<Rightarrow> Fin 0)"
  by (cases n) (simp_all add: isFinite_def)

lemma parsed_units_eq: "parsed_units (parse_purchase p) = spec_numeric (units p)"
  by (simp add: parse_purchase_def Let_def numeric_def spec_numeric_def finite_or_zero)

lemma parsed_amount_eq: "parsed_amount (parse_purchase p) = spec_amount p"
  by (simp add: parse_purchase_def Let_def numeric_def spec_numeric_def spec_amount_def
      finite_or_zero)

lemma reduce_units:
  "foldl (\<lambda>s p. js_add s (parsed_units p)) a (map parse_purchase ps) =
     js_sum_from a (map (\<lambda>p. spec_numeric (units p)) ps)"
  by (induction ps arbitrary: a) (simp_all add: parsed_units_eq)

lemma reduce_amount:
  "foldl (\<lambda>s p. js_add s (parsed_amount p)) a (map parse_purchase ps) =
     js_sum_from a (map spec_amount ps)"
  by (induction ps arbitrary: a) (simp_all add: parsed_amount_eq)

lemma totals_eq_spec:
  "totals ps =
     \<lparr> totalUnits = spec_totalUnits ps, avgPrice = spec_avgPrice ps,
       totalAmount = spec_totalAmount ps \<rparr>"
  by (simp add: totals_def Let_def reduce_units reduce_amount spec_totalUnits_def
      spec_totalAmount_def spec_avgPrice_def)

lemma example_totals:
  "totals example_purchases =
     \<lparr> totalUnits = Fin 15, avgPrice = Fin (6567749456581973 / 140737488355328),
       totalAmount = Fin 700 \<rparr>"
  by (simp add: totals_eq_spec spec_totalUnits_def spec_totalAmount_def spec_avgPrice_def
      spec_amount_def spec_numeric_def example_purchases_def to_double_numeral to_double_140_3)

lemma toFixed_digits:
  assumes "0 \<le> q" "q < 10 ^ 21" "f \<noteq> 0"
    and "nat \<lfloor>q * 10 ^ f + 1 / 2\<rfloor> = n"
    and "nat_digits n = m"
    and "f < length m"
  shows "toFixed f (Fin q) = take (length m - f) m @ [46] @ drop (length m - f) m"
  using assms by (simp add: toFixed_def Let_def)

lemma toFixed_example:
  "toFixed 4 (Fin (6567749456581973 / 140737488355328)) = js ''46.6667''"
proof -
  have "toFixed 4 (Fin (6567749456581973 / 140737488355328)) =
      take (length (js ''466667'') - 4) (js ''466667'') @ [46]
        @ drop (length (js ''466667'') - 4) (js ''466667'')"
  proof (rule toFixed_digits)
    show "nat \<lfloor>(6567749456581973 / 140737488355328 :: rat) * 10 ^ 4 + 1 / 2\<rfloor> = 466667"
      by simp
    show "nat_digits 466667 = js ''466667''"
      by (simp add: nat_digits.simps js_def)
  qed (simp_all add: js_def)
  then show ?thesis by (simp add: js_def)
qed

lemma toFixed_700: "toFixed 2 (Fin 700) = js ''700.00''"
proof -
  have "toFixed 2 (Fin 700) =
      take (length (js ''70000'') - 2) (js ''70000'') @ [46]
        @ drop (length (js ''70000'') - 2) (js ''70000'')"
  proof (rule toFixed_digits)
    show "nat \<lfloor>(700 :: rat) * 10 ^ 2 + 1 / 2\<rfloor> = 70000"
      by simp
    show "nat_digits 70000 = js ''70000''"
      by (simp add: nat_digits.simps js_def)
  qed (simp_all add: js_def)
  then show ?thesis by (simp add: js_def)
qed

text \<open>
  Claim C1: for every purchase list, the aggregator's \<^verbatim>\<open>totalUnits\<close> is the sum of the
  numeric forms of the \<^verbatim>\<open>units\<close> fields (the number itself or \<^verbatim>\<open>Number\<close> of the text, the
  empty string as 0, a non-finite value as 0), its \<^verbatim>\<open>totalAmount\<close> is the sum of the
  amounts of the rows, each the product of the numeric forms of \<^verbatim>\<open>units\<close> and \<^verbatim>\<open>price\<close>,
  and its \<^verbatim>\<open>avgPrice\<close> is \<^verbatim>\<open>totalAmount / totalUnits\<close> when \<^verbatim>\<open>totalUnits > 0\<close> and 0
  otherwise. For the list \<^verbatim>\<open>[{units: 10, price: 50}, {units: 5, price: 40}]\<close> the totals
  are 15 and 700, the average price is shown as \<^verbatim>\<open>$46.6667\<close> and the total amount as
  \<^verbatim>\<open>$700.00\<close>.
\<close>

theorem totals_follow_formulas:
  "totalUnits (totals ps) = spec_totalUnits ps
   \<and> totalAmount (totals ps) = spec_totalAmount ps
   \<and> avgPrice (totals ps) = spec_avgPrice ps
   \<and> totalUnits (totals example_purchases) = Fin 15
   \<and> totalAmount (totals example_purchases) = Fin 700
   \<and> show_avgPrice (totals example_purchases) = js ''$46.6667''
   \<and> show_totalAmount (totals example_purchases) = js ''$700.00''"
proof -
  have a: "show_avgPrice (totals example_purchases) = js ''$46.6667''"
    unfolding show_avgPrice_def example_totals
    by (simp add: truthy_def toFixed_example) (simp add: js_def)
  have b: "show_totalAmount (totals example_purchases) = js ''$700.00''"
    unfolding show_totalAmount_def example_totals
    by (simp add: truthy_def toFixed_700) (simp add: js_def)
  have c: "totalUnits (totals example_purchases) = Fin 15"
    "totalAmount (totals example_purchases) = Fin 700"
    by (simp_all add: example_totals)
  have d: "totalUnits (totals ps) = spec_totalUnits ps"
    "totalAmount (totals ps) = spec_totalAmount ps"
    "avgPrice (totals ps) = spec_avgPrice ps"
    by (simp_all add: totals_eq_spec)
  from a b c d show ?thesis by blast
qed

section \<open>Overflow\<close>












section \<open>Properties of the summary panel\<close>














lemma floor_rat_one_numeral [simp]: "\<lfloor>1 / numeral b :: rat\<rfloor> = 1 div numeral b"
  using floor_divide_of_int_eq [of 1 "numeral b", where ?'a = rat] by simp














end
